theory Spec2Isabelle
  imports Main
begin

section \<open>JavaScript values\<close>

text \<open>
  Request parameters and optional fields are \<open>string | undefined\<close> in the source:
  \<open>None\<close> is \<open>undefined\<close>. A value is truthy when it is a non-empty string; \<open>a || b\<close>
  is \<open>a\<close> when \<open>a\<close> is truthy and \<open>b\<close> otherwise. A \<open>Buffer\<close> is a list of bytes.
\<close>

type_synonym buffer = "char list"

definition truthy :: "string option \<Rightarrow> bool" where
  "truthy x = (case x of None \<Rightarrow> False | Some v \<Rightarrow> v \<noteq> [])"

definition js_or :: "string option \<Rightarrow> string option \<Rightarrow> string option" where
  "js_or a b = (if truthy a then a else b)"

definition startsWith :: "string \<Rightarrow> string \<Rightarrow> bool" where
  "startsWith s pre = (take (length pre) s = pre)"

text \<open>\<open>s.split(c)\<close>: the segments of \<open>s\<close> between occurrences of \<open>c\<close>; never empty.\<close>

fun split :: "char \<Rightarrow> string \<Rightarrow> string list" where
  "split c [] = [[]]"
| "split c (x # xs) =
     (if x = c then [] # split c xs
      else (case split c xs of [] \<Rightarrow> [[x]] | y # ys \<Rightarrow> (x # y) # ys))"

text \<open>Array destructuring \<open>const [a, b] = xs\<close>: a missing element is \<open>undefined\<close>.\<close>

definition element :: "string list \<Rightarrow> nat \<Rightarrow> string option" where
  "element xs i = (if i < length xs then Some (xs ! i) else None)"

section \<open>Data model\<close>

text \<open>The interfaces of \<open>types/quickbooks.d.ts\<close> and of the OAuth server module.\<close>

record OAuthClientRegistration =
  reg_client_id :: string
  reg_client_secret :: "string option"
  reg_client_name :: string
  reg_redirect_uris :: "string list"
  reg_grant_types :: "string list"
  reg_response_types :: "string list"
  reg_token_endpoint_auth_method :: string
  reg_created_at :: int

record PendingAuthorization =
  pa_client_id :: string
  pa_redirect_uri :: string
  pa_state :: "string option"
  pa_code_challenge :: "string option"
  pa_code_challenge_method :: "string option"
  pa_scope :: "string option"

record AuthorizationCode =
  ac_code :: string
  ac_client_id :: string
  ac_redirect_uri :: string
  ac_code_challenge :: "string option"
  ac_code_challenge_method :: "string option"
  ac_scope :: "string option"
  ac_expires_at :: int
  ac_realm_id :: "string option"
  ac_qb_access_token :: "string option"
  ac_qb_refresh_token :: "string option"

record TokenData =
  td_client_id :: string
  td_access_token :: string
  td_refresh_token :: "string option"
  td_expires_at :: int
  td_realm_id :: "string option"
  td_qb_access_token :: "string option"
  td_qb_refresh_token :: "string option"

text \<open>
  \<open>StatelessTokenPayload\<close>. The field \<open>type\<close> is declared \<open>'access' | 'refresh'\<close>, but a
  payload comes out of \<open>JSON.parse\<close> unchecked, so it is a string here.
\<close>

record StatelessTokenPayload =
  tp_type :: string
  tp_client_id :: string
  tp_realm_id :: "string option"
  tp_qb_access_token :: "string option"
  tp_qb_refresh_token :: "string option"
  tp_expires_at :: int
  tp_issued_at :: int

text \<open>The \<open>token\<close> object of an \<open>intuit-oauth\<close> \<open>TokenResponse\<close>.\<close>

record QBToken =
  qb_access_token :: string
  qb_refresh_token :: string
  qb_expires_in :: int
  qb_realmId :: string
  qb_token_type :: string

text \<open>The parts of a WHATWG \<open>URL\<close> object that the server reads.\<close>

record URL =
  protocol :: string
  hostname :: string

section \<open>The platform\<close>

text \<open>
  The server calls Node's \<open>crypto\<close>, \<open>Buffer\<close>, \<open>URL\<close> and \<open>JSON\<close>, and the
  \<open>intuit-oauth\<close> client. None of them is code of this repository, so they are
  parameters of the model:
  \<^item> \<open>url_parse u\<close> is \<open>new URL(u)\<close>, \<open>None\<close> when it throws;
  \<^item> \<open>sha256_base64url v\<close> is \<open>createHash("sha256").update(v).digest("base64url")\<close>;
  \<^item> \<open>base64_decode\<close> is \<open>Buffer.from(s, "base64").toString()\<close>;
  \<^item> \<open>base64url_encode\<close> and \<open>base64url_decode\<close> are \<open>buf.toString("base64url")\<close>
    and \<open>Buffer.from(s, "base64url")\<close>;
  \<^item> \<open>aes_256_gcm_encrypt key iv plaintext\<close> is the ciphertext and the authentication
    tag; \<open>aes_256_gcm_decrypt key iv tag ciphertext\<close> is \<open>None\<close> when \<open>final()\<close> throws;
  \<^item> \<open>json_stringify\<close> is \<open>JSON.stringify\<close> read as UTF-8 bytes, \<open>json_parse\<close> is
    \<open>JSON.parse\<close> of the UTF-8 text of a buffer, \<open>None\<close> when it throws or gives
    \<open>null\<close>;
  \<^item> \<open>authorizeUri scope state\<close> is the upstream authorize URL, \<open>scopes_Accounting\<close> is
    \<open>OAuthClient.scopes.Accounting\<close>;
  \<^item> \<open>TOKEN_ENCRYPTION_KEY\<close> is the module's key.
  What a network call or a random generator returns is an argument of the handler that
  makes the call.
\<close>

record platform =
  url_parse :: "string \<Rightarrow> URL option"
  sha256_base64url :: "string \<Rightarrow> string"
  base64_decode :: "string \<Rightarrow> string"
  base64url_encode :: "buffer \<Rightarrow> string"
  base64url_decode :: "string \<Rightarrow> buffer"
  aes_256_gcm_encrypt :: "buffer \<Rightarrow> buffer \<Rightarrow> buffer \<Rightarrow> buffer \<times> buffer"
  aes_256_gcm_decrypt :: "buffer \<Rightarrow> buffer \<Rightarrow> buffer \<Rightarrow> buffer \<Rightarrow> buffer option"
  json_stringify :: "StatelessTokenPayload \<Rightarrow> buffer"
  json_parse :: "buffer \<Rightarrow> StatelessTokenPayload option"
  authorizeUri :: "string list \<Rightarrow> string \<Rightarrow> string"
  scopes_Accounting :: string
  TOKEN_ENCRYPTION_KEY :: buffer

definition TOKEN_EXPIRY_SECONDS :: int where
  "TOKEN_EXPIRY_SECONDS = 3600"

definition AUTH_CODE_EXPIRY_SECONDS :: int where
  "AUTH_CODE_EXPIRY_SECONDS = 600"

section \<open>Responses and the in-memory stores\<close>

datatype json_body =
    ErrorBody string string
  | TokenBody string string int string string
  | RegistrationBody string "string option" string "string list" "string list" "string list"
      string int

text \<open>
  \<open>Json status body\<close> is \<open>res.status(status).json(body)\<close>, \<open>Send status text\<close> is
  \<open>res.status(status).send(text)\<close>, \<open>RedirectTo url\<close> is \<open>res.redirect(url)\<close> of a URL
  string, and \<open>RedirectClient uri params\<close> is \<open>res.redirect\<close> of the URL object made
  from \<open>uri\<close> after \<open>searchParams.set\<close> of each pair of \<open>params\<close>, in that order.
  \<open>Thrown\<close> is an exception that leaves the handler.
\<close>

datatype response =
    Json nat json_body
  | Send nat string
  | RedirectTo string
  | RedirectClient string "(string \<times> string) list"
  | Thrown

text \<open>The HTTP status that a \<open>res.status(n)\<close> or \<open>res.json\<close> response carries.\<close>

fun status :: "response \<Rightarrow> nat option" where
  "status (Json n body) = Some n"
| "status (Send n text) = Some n"
| "status other = None"

record server =
  registeredClients :: "string \<rightharpoonup> OAuthClientRegistration"
  authorizationCodes :: "string \<rightharpoonup> AuthorizationCode"
  accessTokens :: "string \<rightharpoonup> TokenData"
  refreshTokens :: "string \<rightharpoonup> TokenData"
  pendingAuthorizations :: "string \<rightharpoonup> PendingAuthorization"

text \<open>\<open>map.get(k)\<close> where \<open>k\<close> may be \<open>undefined\<close>: the keys are strings.\<close>

definition get :: "(string \<rightharpoonup> 'v) \<Rightarrow> string option \<Rightarrow> 'v option" where
  "get m k = (case k of None \<Rightarrow> None | Some k' \<Rightarrow> m k')"

section \<open>Token codec\<close>

definition encryptTokenPayload :: "platform \<Rightarrow> buffer \<Rightarrow> StatelessTokenPayload \<Rightarrow> string" where
  "encryptTokenPayload p iv payload =
     (let plaintext = json_stringify p payload;
          (encrypted, authTag) = aes_256_gcm_encrypt p (TOKEN_ENCRYPTION_KEY p) iv plaintext;
          combined = iv @ authTag @ encrypted
      in base64url_encode p combined)"

definition decryptTokenPayload :: "platform \<Rightarrow> string \<Rightarrow> StatelessTokenPayload option" where
  "decryptTokenPayload p token =
     (let combined = base64url_decode p token
      in if length combined < 32 then None
         else
           let iv = take 16 combined;
               authTag = take 16 (drop 16 combined);
               encrypted = drop 32 combined
           in (case aes_256_gcm_decrypt p (TOKEN_ENCRYPTION_KEY p) iv authTag encrypted of
                 None \<Rightarrow> None
               | Some decrypted \<Rightarrow> json_parse p decrypted))"

section \<open>PKCE\<close>

definition verifyCodeChallenge :: "platform \<Rightarrow> string \<Rightarrow> string \<Rightarrow> string option \<Rightarrow> bool" where
  "verifyCodeChallenge p codeVerifier codeChallenge method =
     (let m = (case method of None \<Rightarrow> ''S256'' | Some m' \<Rightarrow> m')
      in if m = ''plain'' then codeVerifier = codeChallenge
         else sha256_base64url p codeVerifier = codeChallenge)"

section \<open>Token endpoint\<close>

record token_request =
  tr_grant_type :: "string option"
  tr_code :: "string option"
  tr_redirect_uri :: "string option"
  tr_code_verifier :: "string option"
  tr_refresh_token :: "string option"
  tr_client_id :: "string option"
  tr_client_secret :: "string option"
  tr_authorization :: "string option"

text \<open>
  What the environment returns while \<open>POST /token\<close> runs: \<open>Date.now()\<close> at the expiry
  check and at issuance, the two \<open>randomBytes(16)\<close> of \<open>encryptTokenPayload\<close>, and the
  outcome of \<open>refreshUsingToken\<close> (\<open>None\<close> when it throws).
\<close>

record token_calls =
  now_check :: int
  now_issue :: int
  iv_access :: buffer
  iv_refresh :: buffer
  refreshUsingToken :: "QBToken option"

text \<open>Client credentials from the body, or from a \<open>Basic\<close> authorization header.\<close>

definition clientCredentials :: "platform \<Rightarrow> token_request \<Rightarrow> string option \<times> string option" where
  "clientCredentials p r =
     (case tr_authorization r of
        None \<Rightarrow> (tr_client_id r, tr_client_secret r)
      | Some authHeader \<Rightarrow>
          if startsWith authHeader ''Basic '' then
            let decoded = base64_decode p (drop 6 authHeader);
                parts = split CHR '':'' decoded
            in (js_or (tr_client_id r) (element parts 0),
                js_or (tr_client_secret r) (element parts 1))
          else (tr_client_id r, tr_client_secret r))"

text \<open>
  The first \<open>authorization_code\<close> block: the client must be registered, and its secret
  must match unless its authentication method is \<open>none\<close>. \<open>None\<close> means no response
  was sent.
\<close>

definition authenticateClient :: "server \<Rightarrow> string option \<Rightarrow> string option \<Rightarrow> response option" where
  "authenticateClient s clientId clientSecret =
     (case get (registeredClients s) clientId of
        None \<Rightarrow> Some (Json 401 (ErrorBody ''invalid_client'' ''Unknown client''))
      | Some client \<Rightarrow>
          if reg_token_endpoint_auth_method client \<noteq> ''none''
             \<and> reg_client_secret client \<noteq> clientSecret
          then Some (Json 401 (ErrorBody ''invalid_client'' ''Invalid client credentials''))
          else None)"

text \<open>The PKCE block; it is skipped when the code stores no challenge.\<close>

definition pkceCheck :: "platform \<Rightarrow> AuthorizationCode \<Rightarrow> string option \<Rightarrow> response option" where
  "pkceCheck p authCode code_verifier =
     (if truthy (ac_code_challenge authCode) then
        (case code_verifier of
           None \<Rightarrow> Some (Json 400 (ErrorBody ''invalid_request'' ''code_verifier is required''))
         | Some v \<Rightarrow>
             if v = [] then
               Some (Json 400 (ErrorBody ''invalid_request'' ''code_verifier is required''))
             else if \<not> verifyCodeChallenge p v
                        (case ac_code_challenge authCode of Some ch \<Rightarrow> ch | None \<Rightarrow> [])
                        (ac_code_challenge_method authCode)
             then Some (Json 400 (ErrorBody ''invalid_grant'' ''Invalid code_verifier''))
             else None)
      else None)"

definition accessTokenPayload :: "string \<Rightarrow> AuthorizationCode \<Rightarrow> int \<Rightarrow> StatelessTokenPayload" where
  "accessTokenPayload clientId authCode now =
     \<lparr>tp_type = ''access'', tp_client_id = clientId, tp_realm_id = ac_realm_id authCode,
      tp_qb_access_token = ac_qb_access_token authCode,
      tp_qb_refresh_token = ac_qb_refresh_token authCode,
      tp_expires_at = now + TOKEN_EXPIRY_SECONDS * 1000, tp_issued_at = now\<rparr>"

definition refreshTokenPayload :: "string \<Rightarrow> AuthorizationCode \<Rightarrow> int \<Rightarrow> StatelessTokenPayload" where
  "refreshTokenPayload clientId authCode now =
     \<lparr>tp_type = ''refresh'', tp_client_id = clientId, tp_realm_id = ac_realm_id authCode,
      tp_qb_access_token = ac_qb_access_token authCode,
      tp_qb_refresh_token = ac_qb_refresh_token authCode,
      tp_expires_at = now + 90 * 24 * 60 * 60 * 1000, tp_issued_at = now\<rparr>"

text \<open>
  The expiry check, the deletion of the code and the issuance of the tokens. The handler
  comes here after the ownership check, so its \<open>clientId\<close> is the \<open>client_id\<close> of
  the code; that string is the argument \<open>clientId\<close> below.
\<close>

definition issueTokens ::
  "platform \<Rightarrow> server \<Rightarrow> token_calls \<Rightarrow> string \<Rightarrow> string \<Rightarrow> AuthorizationCode \<Rightarrow> response \<times> server" where
  "issueTokens p s c clientId code authCode =
     (if now_check c > ac_expires_at authCode then
        (Json 400 (ErrorBody ''invalid_grant'' ''Authorization code has expired''),
         s\<lparr>authorizationCodes := (authorizationCodes s)(code := None)\<rparr>)
      else
        let now = now_issue c;
            accessToken = encryptTokenPayload p (iv_access c) (accessTokenPayload clientId authCode now);
            newRefreshToken = encryptTokenPayload p (iv_refresh c) (refreshTokenPayload clientId authCode now)
        in (Json 200 (TokenBody accessToken ''Bearer'' TOKEN_EXPIRY_SECONDS newRefreshToken
                       (if truthy (ac_scope authCode)
                        then (case ac_scope authCode of Some sc \<Rightarrow> sc | None \<Rightarrow> [])
                        else ''quickbooks:accounting'')),
            s\<lparr>authorizationCodes := (authorizationCodes s)(code := None)\<rparr>))"

definition authorizationCodeGrant ::
  "platform \<Rightarrow> server \<Rightarrow> token_calls \<Rightarrow> token_request \<Rightarrow> string option \<Rightarrow> response \<times> server" where
  "authorizationCodeGrant p s c r clientId =
     (case tr_code r of
        None \<Rightarrow> (Json 400 (ErrorBody ''invalid_request'' ''code is required''), s)
      | Some code \<Rightarrow>
          if code = [] then (Json 400 (ErrorBody ''invalid_request'' ''code is required''), s)
          else
            (case authorizationCodes s code of
               None \<Rightarrow>
                 (Json 400 (ErrorBody ''invalid_grant'' ''Invalid or expired authorization code''), s)
             | Some authCode \<Rightarrow>
                 if Some (ac_client_id authCode) \<noteq> clientId then
                   (Json 400 (ErrorBody ''invalid_grant''
                      ''Authorization code was not issued to this client''), s)
                 else if Some (ac_redirect_uri authCode) \<noteq> tr_redirect_uri r then
                   (Json 400 (ErrorBody ''invalid_grant'' ''redirect_uri does not match''), s)
                 else
                   (case pkceCheck p authCode (tr_code_verifier r) of
                      Some failure \<Rightarrow> (failure, s)
                    | None \<Rightarrow> issueTokens p s c (ac_client_id authCode) code authCode)))"

text \<open>The \<open>refresh_token\<close> grant; it reads no store.\<close>

definition refreshTokenGrant ::
  "platform \<Rightarrow> token_calls \<Rightarrow> token_request \<Rightarrow> string option \<Rightarrow> response" where
  "refreshTokenGrant p c r clientId =
     (if \<not> truthy (tr_refresh_token r) then
        Json 400 (ErrorBody ''invalid_request'' ''refresh_token is required'')
      else
        (case decryptTokenPayload p (case tr_refresh_token r of Some t \<Rightarrow> t | None \<Rightarrow> []) of
           None \<Rightarrow> Json 400 (ErrorBody ''invalid_grant'' ''Invalid refresh token'')
         | Some tokenPayload \<Rightarrow>
             if tp_type tokenPayload \<noteq> ''refresh'' then
               Json 400 (ErrorBody ''invalid_grant'' ''Token is not a refresh token'')
             else if now_check c > tp_expires_at tokenPayload then
               Json 400 (ErrorBody ''invalid_grant'' ''Refresh token has expired'')
             else if truthy clientId \<and> Some (tp_client_id tokenPayload) \<noteq> clientId then
               Json 400 (ErrorBody ''invalid_grant''
                 ''Refresh token was not issued to this client'')
             else
               let effectiveClientId =
                     (case js_or clientId (Some (tp_client_id tokenPayload)) of
                        Some cid \<Rightarrow> cid | None \<Rightarrow> []);
                   (qbAccessToken, qbRefreshToken) =
                     (if truthy (tp_qb_refresh_token tokenPayload) then
                        (case refreshUsingToken c of
                           Some t \<Rightarrow> (Some (qb_access_token t), Some (qb_refresh_token t))
                         | None \<Rightarrow>
                             (tp_qb_access_token tokenPayload, tp_qb_refresh_token tokenPayload))
                      else (tp_qb_access_token tokenPayload, tp_qb_refresh_token tokenPayload));
                   now = now_issue c;
                   newAccessTokenPayload =
                     \<lparr>tp_type = ''access'', tp_client_id = effectiveClientId,
                      tp_realm_id = tp_realm_id tokenPayload,
                      tp_qb_access_token = qbAccessToken, tp_qb_refresh_token = qbRefreshToken,
                      tp_expires_at = now + TOKEN_EXPIRY_SECONDS * 1000, tp_issued_at = now\<rparr>;
                   newRefreshTokenPayload =
                     \<lparr>tp_type = ''refresh'', tp_client_id = effectiveClientId,
                      tp_realm_id = tp_realm_id tokenPayload,
                      tp_qb_access_token = qbAccessToken, tp_qb_refresh_token = qbRefreshToken,
                      tp_expires_at = now + 90 * 24 * 60 * 60 * 1000, tp_issued_at = now\<rparr>
               in Json 200 (TokenBody (encryptTokenPayload p (iv_access c) newAccessTokenPayload)
                    ''Bearer'' TOKEN_EXPIRY_SECONDS
                    (encryptTokenPayload p (iv_refresh c) newRefreshTokenPayload)
                    ''quickbooks:accounting'')))"

definition token :: "platform \<Rightarrow> server \<Rightarrow> token_calls \<Rightarrow> token_request \<Rightarrow> response \<times> server" where
  "token p s c r =
     (let (clientId, clientSecret) = clientCredentials p r
      in if tr_grant_type r = Some ''authorization_code'' then
           (case authenticateClient s clientId clientSecret of
              Some failure \<Rightarrow> (failure, s)
            | None \<Rightarrow> authorizationCodeGrant p s c r clientId)
         else if tr_grant_type r = Some ''refresh_token'' then
           (refreshTokenGrant p c r clientId, s)
         else
           (Json 400 (ErrorBody ''unsupported_grant_type''
              ''Only authorization_code and refresh_token grants are supported''), s))"

section \<open>Token endpoint with server-held tokens\<close>

text \<open>
  The variant of the module that keeps issued tokens in \<open>accessTokens\<close> and
  \<open>refreshTokens\<close>. Its tokens are two \<open>generateSecureToken(32)\<close>; the client is
  authenticated for every grant. Where a token record is built after a check that
  \<open>clientId\<close> is the stored \<open>client_id\<close>, the stored string is used.
\<close>

record stateful_calls =
  sf_now_check :: int
  sf_now_issue :: int
  sf_accessToken :: string
  sf_newRefreshToken :: string
  sf_refreshUsingToken :: "QBToken option"

definition stateful_issueTokens ::
  "server \<Rightarrow> stateful_calls \<Rightarrow> string \<Rightarrow> string \<Rightarrow> AuthorizationCode \<Rightarrow> response \<times> server" where
  "stateful_issueTokens s c clientId code authCode =
     (if sf_now_check c > ac_expires_at authCode then
        (Json 400 (ErrorBody ''invalid_grant'' ''Authorization code has expired''),
         s\<lparr>authorizationCodes := (authorizationCodes s)(code := None)\<rparr>)
      else
        let accessToken = sf_accessToken c;
            newRefreshToken = sf_newRefreshToken c;
            tokenData =
              \<lparr>td_client_id = clientId, td_access_token = accessToken,
               td_refresh_token = Some newRefreshToken,
               td_expires_at = sf_now_issue c + TOKEN_EXPIRY_SECONDS * 1000,
               td_realm_id = ac_realm_id authCode,
               td_qb_access_token = ac_qb_access_token authCode,
               td_qb_refresh_token = ac_qb_refresh_token authCode\<rparr>;
            s1 = s\<lparr>authorizationCodes := (authorizationCodes s)(code := None)\<rparr>;
            s2 = s1\<lparr>accessTokens := (accessTokens s1)(accessToken \<mapsto> tokenData)\<rparr>;
            s3 = s2\<lparr>refreshTokens := (refreshTokens s2)(newRefreshToken \<mapsto> tokenData)\<rparr>
        in (Json 200 (TokenBody accessToken ''Bearer'' TOKEN_EXPIRY_SECONDS newRefreshToken
                       (if truthy (ac_scope authCode)
                        then (case ac_scope authCode of Some sc \<Rightarrow> sc | None \<Rightarrow> [])
                        else ''quickbooks:accounting'')), s3))"

definition stateful_authorizationCodeGrant ::
  "platform \<Rightarrow> server \<Rightarrow> stateful_calls \<Rightarrow> token_request \<Rightarrow> string option \<Rightarrow> response \<times> server" where
  "stateful_authorizationCodeGrant p s c r clientId =
     (case tr_code r of
        None \<Rightarrow> (Json 400 (ErrorBody ''invalid_request'' ''code is required''), s)
      | Some code \<Rightarrow>
          if code = [] then (Json 400 (ErrorBody ''invalid_request'' ''code is required''), s)
          else
            (case authorizationCodes s code of
               None \<Rightarrow>
                 (Json 400 (ErrorBody ''invalid_grant'' ''Invalid or expired authorization code''), s)
             | Some authCode \<Rightarrow>
                 if Some (ac_client_id authCode) \<noteq> clientId then
                   (Json 400 (ErrorBody ''invalid_grant''
                      ''Authorization code was not issued to this client''), s)
                 else if Some (ac_redirect_uri authCode) \<noteq> tr_redirect_uri r then
                   (Json 400 (ErrorBody ''invalid_grant'' ''redirect_uri does not match''), s)
                 else
                   (case pkceCheck p authCode (tr_code_verifier r) of
                      Some failure \<Rightarrow> (failure, s)
                    | None \<Rightarrow> stateful_issueTokens s c (ac_client_id authCode) code authCode)))"

definition stateful_refreshTokenGrant ::
  "server \<Rightarrow> stateful_calls \<Rightarrow> token_request \<Rightarrow> string option \<Rightarrow> response \<times> server" where
  "stateful_refreshTokenGrant s c r clientId =
     (case tr_refresh_token r of
        None \<Rightarrow> (Json 400 (ErrorBody ''invalid_request'' ''refresh_token is required''), s)
      | Some refresh_token \<Rightarrow>
          if refresh_token = [] then
            (Json 400 (ErrorBody ''invalid_request'' ''refresh_token is required''), s)
          else
            (case refreshTokens s refresh_token of
               None \<Rightarrow> (Json 400 (ErrorBody ''invalid_grant'' ''Invalid refresh token''), s)
             | Some existingTokenData \<Rightarrow>
                 if Some (td_client_id existingTokenData) \<noteq> clientId then
                   (Json 400 (ErrorBody ''invalid_grant''
                      ''Refresh token was not issued to this client''), s)
                 else
                   let (qbAccessToken, qbRefreshToken) =
                         (if truthy (td_qb_refresh_token existingTokenData) then
                            (case sf_refreshUsingToken c of
                               Some t \<Rightarrow> (Some (qb_access_token t), Some (qb_refresh_token t))
                             | None \<Rightarrow>
                                 (td_qb_access_token existingTokenData,
                                  td_qb_refresh_token existingTokenData))
                          else (td_qb_access_token existingTokenData,
                                td_qb_refresh_token existingTokenData));
                       s1 = s\<lparr>accessTokens :=
                              (accessTokens s)(td_access_token existingTokenData := None)\<rparr>;
                       s2 = s1\<lparr>refreshTokens := (refreshTokens s1)(refresh_token := None)\<rparr>;
                       newAccessToken = sf_accessToken c;
                       newRefreshToken = sf_newRefreshToken c;
                       newTokenData =
                         \<lparr>td_client_id = td_client_id existingTokenData,
                          td_access_token = newAccessToken,
                          td_refresh_token = Some newRefreshToken,
                          td_expires_at = sf_now_issue c + TOKEN_EXPIRY_SECONDS * 1000,
                          td_realm_id = td_realm_id existingTokenData,
                          td_qb_access_token = qbAccessToken,
                          td_qb_refresh_token = qbRefreshToken\<rparr>;
                       s3 = s2\<lparr>accessTokens := (accessTokens s2)(newAccessToken \<mapsto> newTokenData)\<rparr>;
                       s4 = s3\<lparr>refreshTokens :=
                              (refreshTokens s3)(newRefreshToken \<mapsto> newTokenData)\<rparr>
                   in (Json 200 (TokenBody newAccessToken ''Bearer'' TOKEN_EXPIRY_SECONDS
                         newRefreshToken ''quickbooks:accounting''), s4)))"

definition stateful_token ::
  "platform \<Rightarrow> server \<Rightarrow> stateful_calls \<Rightarrow> token_request \<Rightarrow> response \<times> server" where
  "stateful_token p s c r =
     (let (clientId, clientSecret) = clientCredentials p r
      in case authenticateClient s clientId clientSecret of
           Some failure \<Rightarrow> (failure, s)
         | None \<Rightarrow>
             if tr_grant_type r = Some ''authorization_code'' then
               stateful_authorizationCodeGrant p s c r clientId
             else if tr_grant_type r = Some ''refresh_token'' then
               stateful_refreshTokenGrant s c r clientId
             else
               (Json 400 (ErrorBody ''unsupported_grant_type''
                  ''Only authorization_code and refresh_token grants are supported''), s))"

section \<open>Access-token validation\<close>

definition validateAccessToken ::
  "platform \<Rightarrow> server \<Rightarrow> int \<Rightarrow> string \<Rightarrow> TokenData option \<times> server" where
  "validateAccessToken p s now tok =
     (case decryptTokenPayload p tok of
        Some payload \<Rightarrow>
          if tp_type payload \<noteq> ''access'' then (None, s)
          else if now > tp_expires_at payload then (None, s)
          else
            (Some \<lparr>td_client_id = tp_client_id payload, td_access_token = tok,
                   td_refresh_token = None, td_expires_at = tp_expires_at payload,
                   td_realm_id = tp_realm_id payload,
                   td_qb_access_token = tp_qb_access_token payload,
                   td_qb_refresh_token = tp_qb_refresh_token payload\<rparr>, s)
      | None \<Rightarrow>
          (case accessTokens s tok of
             None \<Rightarrow> (None, s)
           | Some tokenData \<Rightarrow>
               if now > td_expires_at tokenData then
                 (None, s\<lparr>accessTokens := (accessTokens s)(tok := None)\<rparr>)
               else (Some tokenData, s)))"

definition getQuickBooksCredentials ::
  "platform \<Rightarrow> server \<Rightarrow> int \<Rightarrow> string \<Rightarrow> (string \<times> string \<times> string option) option \<times> server" where
  "getQuickBooksCredentials p s now tok =
     (case validateAccessToken p s now tok of
        (None, s') \<Rightarrow> (None, s')
      | (Some tokenData, s') \<Rightarrow>
          if \<not> truthy (td_realm_id tokenData) \<or> \<not> truthy (td_qb_access_token tokenData)
          then (None, s')
          else
            (Some (case td_realm_id tokenData of Some x \<Rightarrow> x | None \<Rightarrow> [],
                   case td_qb_access_token tokenData of Some x \<Rightarrow> x | None \<Rightarrow> [],
                   td_qb_refresh_token tokenData), s'))"

section \<open>Dynamic client registration\<close>

text \<open>
  \<open>rr_redirect_uris\<close> is \<open>None\<close> when the body has no \<open>redirect_uris\<close> or a value that is
  not an array. The registration comes with the \<open>uuidv4()\<close>, the
  \<open>generateSecureToken(32)\<close> and the \<open>Date.now()\<close> of the request.
\<close>

record register_request =
  rr_client_name :: "string option"
  rr_redirect_uris :: "string list option"
  rr_grant_types :: "string list option"
  rr_response_types :: "string list option"
  rr_token_endpoint_auth_method :: "string option"

text \<open>The loop over \<open>redirect_uris\<close>: the first response it sends, if any.\<close>

fun validateRedirectUris :: "platform \<Rightarrow> string list \<Rightarrow> response option" where
  "validateRedirectUris p [] = None"
| "validateRedirectUris p (uri # rest) =
     (case url_parse p uri of
        None \<Rightarrow>
          Some (Json 400 (ErrorBody ''invalid_redirect_uri'' (''Invalid redirect URI: '' @ uri)))
      | Some url \<Rightarrow>
          let isLocalhost = (hostname url = ''localhost'' \<or> hostname url = ''127.0.0.1'');
              isHttps = (protocol url = ''https:'')
          in if \<not> isLocalhost \<and> \<not> isHttps then
               Some (Json 400 (ErrorBody ''invalid_redirect_uri''
                 ''Redirect URIs must be localhost URLs or HTTPS URLs''))
             else validateRedirectUris p rest)"

definition register ::
  "platform \<Rightarrow> server \<Rightarrow> string \<Rightarrow> string \<Rightarrow> int \<Rightarrow> register_request \<Rightarrow> response \<times> server" where
  "register p s uuid secureToken now r =
     (let grant_types =
            (case rr_grant_types r of
               None \<Rightarrow> [''authorization_code'', ''refresh_token''] | Some g \<Rightarrow> g);
          response_types = (case rr_response_types r of None \<Rightarrow> [''code''] | Some t \<Rightarrow> t);
          token_endpoint_auth_method =
            (case rr_token_endpoint_auth_method r of None \<Rightarrow> ''none'' | Some m \<Rightarrow> m)
      in case rr_redirect_uris r of
           None \<Rightarrow>
             (Json 400 (ErrorBody ''invalid_client_metadata''
                ''redirect_uris is required and must be a non-empty array''), s)
         | Some redirect_uris \<Rightarrow>
             if length redirect_uris = 0 then
               (Json 400 (ErrorBody ''invalid_client_metadata''
                  ''redirect_uris is required and must be a non-empty array''), s)
             else
               (case validateRedirectUris p redirect_uris of
                  Some failure \<Rightarrow> (failure, s)
                | None \<Rightarrow>
                    let clientId = uuid;
                        clientSecret =
                          (if token_endpoint_auth_method \<noteq> ''none'' then Some secureToken
                           else None);
                        registration =
                          \<lparr>reg_client_id = clientId, reg_client_secret = clientSecret,
                           reg_client_name =
                             (if truthy (rr_client_name r)
                              then (case rr_client_name r of Some n \<Rightarrow> n | None \<Rightarrow> [])
                              else ''MCP Client '' @ take 8 clientId),
                           reg_redirect_uris = redirect_uris, reg_grant_types = grant_types,
                           reg_response_types = response_types,
                           reg_token_endpoint_auth_method = token_endpoint_auth_method,
                           reg_created_at = now\<rparr>
                    in (Json 201 (RegistrationBody clientId clientSecret
                          (reg_client_name registration) redirect_uris grant_types
                          response_types token_endpoint_auth_method
                          (reg_created_at registration div 1000)),
                        s\<lparr>registeredClients := (registeredClients s)(clientId \<mapsto> registration)\<rparr>)))"

text \<open>
  A redirect URI that is a URL on \<open>localhost\<close> or \<open>127.0.0.1\<close>, or an \<open>https\<close> URL.
\<close>

definition localhostOrHttps :: "platform \<Rightarrow> string \<Rightarrow> bool" where
  "localhostOrHttps p uri =
     (case url_parse p uri of
        None \<Rightarrow> False
      | Some url \<Rightarrow>
          hostname url = ''localhost'' \<or> hostname url = ''127.0.0.1'' \<or> protocol url = ''https:'')"

text \<open>The \<open>client_id\<close> of a registration response.\<close>

fun registered_client_id :: "response \<Rightarrow> string option" where
  "registered_client_id (Json n (RegistrationBody clientId secret name uris grants types auth issued_at))
     = Some clientId"
| "registered_client_id other = None"

section \<open>Random tokens\<close>

text \<open>
  \<open>generateSecureToken(length)\<close> is \<open>crypto.randomBytes(length).toString("hex")\<close>: two
  lowercase hexadecimal digits for each byte. Its argument here is the buffer that
  \<open>randomBytes(length)\<close> returned.
\<close>

definition hexDigits :: string where
  "hexDigits = ''0123456789abcdef''"

fun toHex :: "buffer \<Rightarrow> string" where
  "toHex [] = []"
| "toHex (b # bs) =
     hexDigits ! ((of_char b :: nat) div 16) # hexDigits ! ((of_char b :: nat) mod 16) # toHex bs"

definition generateSecureToken :: "buffer \<Rightarrow> string" where
  "generateSecureToken randomBytes = toHex randomBytes"

section \<open>Authorization endpoint\<close>

record authorize_request =
  aq_response_type :: "string option"
  aq_client_id :: "string option"
  aq_redirect_uri :: "string option"
  aq_state :: "string option"
  aq_code_challenge :: "string option"
  aq_code_challenge_method :: "string option"
  aq_scope :: "string option"

text \<open>\<open>if (x) url.searchParams.set(name, x)\<close>.\<close>

definition set_if :: "string \<Rightarrow> string option \<Rightarrow> (string \<times> string) list" where
  "set_if name x = (case x of None \<Rightarrow> [] | Some v \<Rightarrow> if v = [] then [] else [(name, v)])"

text \<open>\<open>internalState\<close> is what \<open>generateSecureToken(16)\<close> returns in this request.\<close>

definition authorize ::
  "platform \<Rightarrow> server \<Rightarrow> string \<Rightarrow> authorize_request \<Rightarrow> response \<times> server" where
  "authorize p s internalState r =
     (let code_challenge_method =
            (case aq_code_challenge_method r of None \<Rightarrow> Some ''S256'' | Some m \<Rightarrow> Some m)
      in if aq_response_type r \<noteq> Some ''code'' then
           (Json 400 (ErrorBody ''unsupported_response_type''
              ''Only 'code' response type is supported''), s)
         else if \<not> truthy (aq_client_id r) then
           (Json 400 (ErrorBody ''invalid_request'' ''client_id is required''), s)
         else
           (case get (registeredClients s) (aq_client_id r) of
              None \<Rightarrow> (Json 400 (ErrorBody ''invalid_client'' ''Unknown client_id''), s)
            | Some client \<Rightarrow>
                (case aq_redirect_uri r of
                   None \<Rightarrow>
                     (Json 400 (ErrorBody ''invalid_redirect_uri''
                        ''redirect_uri does not match registered URIs''), s)
                 | Some redirect_uri \<Rightarrow>
                     if redirect_uri = [] \<or> redirect_uri \<notin> set (reg_redirect_uris client) then
                       (Json 400 (ErrorBody ''invalid_redirect_uri''
                          ''redirect_uri does not match registered URIs''), s)
                     else if \<not> truthy (aq_code_challenge r) then
                       (case url_parse p redirect_uri of
                          None \<Rightarrow> (Thrown, s)
                        | Some errorUrl \<Rightarrow>
                            (RedirectClient redirect_uri
                               ([(''error'', ''invalid_request''),
                                 (''error_description'', ''code_challenge is required (PKCE)'')]
                                @ set_if ''state'' (aq_state r)), s))
                     else
                       (RedirectTo (authorizeUri p [scopes_Accounting p] internalState),
                        s\<lparr>pendingAuthorizations := (pendingAuthorizations s)(internalState \<mapsto>
                            \<lparr>pa_client_id = (case aq_client_id r of Some c \<Rightarrow> c | None \<Rightarrow> []),
                             pa_redirect_uri = redirect_uri, pa_state = aq_state r,
                             pa_code_challenge = aq_code_challenge r,
                             pa_code_challenge_method = code_challenge_method,
                             pa_scope = aq_scope r\<rparr>)\<rparr>))))"

section \<open>Callback\<close>

record callback_request =
  cq_code :: "string option"
  cq_state :: "string option"
  cq_realmId :: "string option"
  cq_error :: "string option"
  cq_error_description :: "string option"
  cq_url :: string

text \<open>
  \<open>tokenResponse\<close> is the outcome of \<open>createToken(req.url)\<close> (\<open>None\<close> when it throws),
  \<open>authCode\<close> is what \<open>generateSecureToken(32)\<close> returns and \<open>now\<close> is \<open>Date.now()\<close>.
\<close>

definition callback ::
  "platform \<Rightarrow> server \<Rightarrow> QBToken option \<Rightarrow> string \<Rightarrow> int \<Rightarrow> callback_request
     \<Rightarrow> response \<times> server" where
  "callback p s tokenResponse authCode now r =
     (case cq_state r of
        None \<Rightarrow> (Send 400 ''Invalid or expired authorization state'', s)
      | Some internalState \<Rightarrow>
          (case pendingAuthorizations s internalState of
             None \<Rightarrow> (Send 400 ''Invalid or expired authorization state'', s)
           | Some pending \<Rightarrow>
               let s1 = s\<lparr>pendingAuthorizations :=
                          (pendingAuthorizations s)(internalState := None)\<rparr>
               in (case url_parse p (pa_redirect_uri pending) of
                     None \<Rightarrow> (Thrown, s1)
                   | Some clientRedirectUri \<Rightarrow>
                       if truthy (cq_error r) then
                         (RedirectClient (pa_redirect_uri pending)
                            (set_if ''error'' (cq_error r)
                             @ set_if ''error_description'' (cq_error_description r)
                             @ set_if ''state'' (pa_state pending)), s1)
                       else
                         (case tokenResponse of
                            None \<Rightarrow>
                              (RedirectClient (pa_redirect_uri pending)
                                 ([(''error'', ''server_error''),
                                   (''error_description'',
                                    ''Failed to complete QuickBooks authorization'')]
                                  @ set_if ''state'' (pa_state pending)), s1)
                          | Some qbTokens \<Rightarrow>
                              let authCodeData =
                                    \<lparr>ac_code = authCode, ac_client_id = pa_client_id pending,
                                     ac_redirect_uri = pa_redirect_uri pending,
                                     ac_code_challenge = pa_code_challenge pending,
                                     ac_code_challenge_method = pa_code_challenge_method pending,
                                     ac_scope = pa_scope pending,
                                     ac_expires_at = now + AUTH_CODE_EXPIRY_SECONDS * 1000,
                                     ac_realm_id =
                                       js_or (cq_realmId r) (Some (qb_realmId qbTokens)),
                                     ac_qb_access_token = Some (qb_access_token qbTokens),
                                     ac_qb_refresh_token = Some (qb_refresh_token qbTokens)\<rparr>
                              in (RedirectClient (pa_redirect_uri pending)
                                    ([(''code'', authCode)] @ set_if ''state'' (pa_state pending)),
                                  s1\<lparr>authorizationCodes :=
                                       (authorizationCodes s1)(authCode \<mapsto> authCodeData)\<rparr>)))))"

section \<open>Requests over time\<close>

text \<open>
  One request to the router, with what the environment returns while it is handled, and
  the server after a sequence of requests.
\<close>

datatype event =
    Register string string int register_request
  | Authorize string authorize_request
  | Callback "QBToken option" string int callback_request
  | Token token_calls token_request

fun handle :: "platform \<Rightarrow> server \<Rightarrow> event \<Rightarrow> response \<times> server" where
  "handle p s (Register uuid secureToken now r) = register p s uuid secureToken now r"
| "handle p s (Authorize internalState r) = authorize p s internalState r"
| "handle p s (Callback tokenResponse authCode now r) = callback p s tokenResponse authCode now r"
| "handle p s (Token c r) = token p s c r"

fun run :: "platform \<Rightarrow> server \<Rightarrow> event list \<Rightarrow> server" where
  "run p s [] = s"
| "run p s (e # es) = run p (snd (handle p s e)) es"

text \<open>The code that an event stores in \<open>authorizationCodes\<close>, and the state token it consumes.\<close>

fun minted :: "event \<Rightarrow> string option" where
  "minted (Callback tokenResponse authCode now r) = Some authCode"
| "minted e = None"

fun consumed :: "event \<Rightarrow> string option" where
  "consumed (Callback tokenResponse authCode now r) = cq_state r"
| "consumed e = None"

text \<open>The state token under which an event stores a pending authorization.\<close>

fun issued :: "event \<Rightarrow> string option" where
  "issued (Authorize internalState r) = Some internalState"
| "issued e = None"

section \<open>A platform for concrete requests\<close>

text \<open>
  The handlers are evaluated on concrete requests with the platform below: URLs are
  read from a table, the encodings are the identity, the digest prefixes its input, the
  cipher leaves the plaintext as it is under a constant tag, and a payload is serialised
  as its \<open>type\<close>, from which parsing makes a fixed payload of that type. It stands
  in for Node only where a closed term is needed; every general statement below is about
  an arbitrary platform.
\<close>

definition test_url_parse :: "string \<Rightarrow> URL option" where
  "test_url_parse u =
     (if u = ''http://localhost:4000/cb'' then Some \<lparr>protocol = ''http:'', hostname = ''localhost''\<rparr>
      else if u = ''https://app.example.com/cb''
        then Some \<lparr>protocol = ''https:'', hostname = ''app.example.com''\<rparr>
      else if u = ''http://example.com/cb''
        then Some \<lparr>protocol = ''http:'', hostname = ''example.com''\<rparr>
      else None)"

definition test_json_parse :: "buffer \<Rightarrow> StatelessTokenPayload option" where
  "test_json_parse b =
     (if b = ''access'' \<or> b = ''refresh'' then
        Some \<lparr>tp_type = b, tp_client_id = ''client-1'', tp_realm_id = Some ''realm-1'',
              tp_qb_access_token = Some ''qb-access'', tp_qb_refresh_token = Some ''qb-refresh'',
              tp_expires_at = 5000, tp_issued_at = 1000\<rparr>
      else None)"

definition test_platform :: platform where
  "test_platform =
     \<lparr>url_parse = test_url_parse,
      sha256_base64url = (\<lambda>v. ''sha256:'' @ v),
      base64_decode = (\<lambda>v. v),
      base64url_encode = (\<lambda>b. b),
      base64url_decode = (\<lambda>v. v),
      aes_256_gcm_encrypt = (\<lambda>key iv plaintext. (plaintext, ''tttttttttttttttt'')),
      aes_256_gcm_decrypt =
        (\<lambda>key iv tag ciphertext. if tag = ''tttttttttttttttt'' then Some ciphertext else None),
      json_stringify = tp_type,
      json_parse = test_json_parse,
      authorizeUri = (\<lambda>scope state. ''https://appcenter.intuit.com/connect/oauth2?state='' @ state),
      scopes_Accounting = ''com.intuit.quickbooks.accounting'',
      TOKEN_ENCRYPTION_KEY = ''kkkkkkkkkkkkkkkkkkkkkkkkkkkkkkkk''\<rparr>"

definition test_client :: OAuthClientRegistration where
  "test_client =
     \<lparr>reg_client_id = ''client-1'', reg_client_secret = None, reg_client_name = ''MCP Client'',
      reg_redirect_uris = [''http://localhost:4000/cb''],
      reg_grant_types = [''authorization_code'', ''refresh_token''],
      reg_response_types = [''code''], reg_token_endpoint_auth_method = ''none'',
      reg_created_at = 0\<rparr>"

definition test_code :: "string \<Rightarrow> string \<Rightarrow> AuthorizationCode" where
  "test_code challenge method =
     \<lparr>ac_code = ''code-1'', ac_client_id = ''client-1'',
      ac_redirect_uri = ''http://localhost:4000/cb'', ac_code_challenge = Some challenge,
      ac_code_challenge_method = Some method, ac_scope = None, ac_expires_at = 5000,
      ac_realm_id = Some ''realm-1'', ac_qb_access_token = Some ''qb-access'',
      ac_qb_refresh_token = Some ''qb-refresh''\<rparr>"

definition test_server :: "string \<Rightarrow> string \<Rightarrow> server" where
  "test_server challenge method =
     \<lparr>registeredClients = [''client-1'' \<mapsto> test_client],
      authorizationCodes = [''code-1'' \<mapsto> test_code challenge method],
      accessTokens = Map.empty, refreshTokens = Map.empty,
      pendingAuthorizations = Map.empty\<rparr>"

definition test_calls :: "int \<Rightarrow> token_calls" where
  "test_calls now =
     \<lparr>now_check = now, now_issue = now, iv_access = ''aaaaaaaaaaaaaaaa'',
      iv_refresh = ''bbbbbbbbbbbbbbbb'', refreshUsingToken = None\<rparr>"

definition test_redeem :: "string option \<Rightarrow> token_request" where
  "test_redeem verifier =
     \<lparr>tr_grant_type = Some ''authorization_code'', tr_code = Some ''code-1'',
      tr_redirect_uri = Some ''http://localhost:4000/cb'', tr_code_verifier = verifier,
      tr_refresh_token = None, tr_client_id = Some ''client-1'', tr_client_secret = None,
      tr_authorization = None\<rparr>"

definition test_refresh :: "string \<Rightarrow> token_request" where
  "test_refresh tok =
     \<lparr>tr_grant_type = Some ''refresh_token'', tr_code = None, tr_redirect_uri = None,
      tr_code_verifier = None, tr_refresh_token = Some tok, tr_client_id = None,
      tr_client_secret = None, tr_authorization = None\<rparr>"

definition test_authorize :: "string option \<Rightarrow> authorize_request" where
  "test_authorize state =
     \<lparr>aq_response_type = Some ''code'', aq_client_id = Some ''client-1'',
      aq_redirect_uri = Some ''http://localhost:4000/cb'', aq_state = state,
      aq_code_challenge = Some ''verifier-1'', aq_code_challenge_method = Some ''plain'',
      aq_scope = None\<rparr>"

definition test_stateful_calls :: "int \<Rightarrow> stateful_calls" where
  "test_stateful_calls now =
     \<lparr>sf_now_check = now, sf_now_issue = now, sf_accessToken = ''access-1'',
      sf_newRefreshToken = ''refresh-1'', sf_refreshUsingToken = None\<rparr>"

definition test_callback :: "string \<Rightarrow> callback_request" where
  "test_callback state =
     \<lparr>cq_code = Some ''qb-code'', cq_state = Some state, cq_realmId = Some ''realm-1'',
      cq_error = None, cq_error_description = None,
      cq_url = ''/callback?code=qb-code&state=state-1&realmId=realm-1''\<rparr>"

definition test_qb_token :: QBToken where
  "test_qb_token =
     \<lparr>qb_access_token = ''qb-access'', qb_refresh_token = ''qb-refresh'', qb_expires_in = 3600,
      qb_realmId = ''realm-1'', qb_token_type = ''bearer''\<rparr>"

definition test_register :: "string list option \<Rightarrow> register_request" where
  "test_register uris =
     \<lparr>rr_client_name = None, rr_redirect_uris = uris, rr_grant_types = None,
      rr_response_types = None, rr_token_endpoint_auth_method = None\<rparr>"

section \<open>Properties\<close>

lemmas test_defs = test_platform_def test_server_def test_code_def test_client_def
  test_calls_def test_redeem_def test_refresh_def test_url_parse_def test_json_parse_def

subsection \<open>PKCE at the token endpoint\<close>

text \<open>
  Claim C1, as the code has it. A request of the \<open>authorization_code\<close> grant reaches the
  PKCE block when the client is authenticated and the code is stored for this client and
  this \<open>redirect_uri\<close>. With a stored non-empty challenge and a non-empty verifier \<open>v\<close>:
  if the challenge is \<open>base64url(sha256(v))\<close> under \<open>S256\<close>, or \<open>v\<close> itself under
  \<open>plain\<close>, the PKCE block sends nothing and the request succeeds unless the code has
  expired; if it is not, the response is \<open>invalid_grant\<close> and the stores are unchanged.
  An empty or missing verifier is answered with \<open>invalid_request\<close>, whatever the
  challenge is.
\<close>

theorem pkce_verification:
  assumes grant: "tr_grant_type r = Some ''authorization_code''"
    and creds: "clientCredentials p r = (Some cid, secret)"
    and auth: "authenticateClient s (Some cid) secret = None"
    and code: "tr_code r = Some code" "code \<noteq> []"
    and stored: "authorizationCodes s code = Some authCode"
    and owner: "ac_client_id authCode = cid"
    and uri: "tr_redirect_uri r = Some (ac_redirect_uri authCode)"
    and challenge: "ac_code_challenge authCode = Some challenge" "challenge \<noteq> []"
    and cmethod: "ac_code_challenge_method authCode = Some m" "m = ''S256'' \<or> m = ''plain''"
  shows "(\<forall>v. v \<noteq> [] \<and> tr_code_verifier r = Some v \<and>
              (if m = ''plain'' then v = challenge else sha256_base64url p v = challenge) \<longrightarrow>
            pkceCheck p authCode (tr_code_verifier r) = None \<and>
            (now_check c \<le> ac_expires_at authCode \<longrightarrow>
               (\<exists>a t sc. fst (token p s c r) = Json 200 (TokenBody a ''Bearer'' 3600 t sc)))) \<and>
         (\<forall>v. v \<noteq> [] \<and> tr_code_verifier r = Some v \<and>
              (if m = ''plain'' then v \<noteq> challenge else sha256_base64url p v \<noteq> challenge) \<longrightarrow>
            token p s c r = (Json 400 (ErrorBody ''invalid_grant'' ''Invalid code_verifier''), s)) \<and>
         (\<not> truthy (tr_code_verifier r) \<longrightarrow>
            token p s c r =
              (Json 400 (ErrorBody ''invalid_request'' ''code_verifier is required''), s))"
  using assms
  by (auto simp: token_def authorizationCodeGrant_def pkceCheck_def verifyCodeChallenge_def
      truthy_def issueTokens_def TOKEN_EXPIRY_SECONDS_def Let_def split: option.splits)

text \<open>The three cases of C1 on concrete requests.\<close>

theorem pkce_verification_witness:
  "(\<exists>a t sc. fst (token test_platform (test_server ''sha256:verifier-1'' ''S256'') (test_calls 1000)
       (test_redeem (Some ''verifier-1''))) = Json 200 (TokenBody a ''Bearer'' 3600 t sc)) \<and>
   token test_platform (test_server ''verifier-1'' ''plain'') (test_calls 1000)
       (test_redeem (Some ''verifier-2''))
     = (Json 400 (ErrorBody ''invalid_grant'' ''Invalid code_verifier''),
        test_server ''verifier-1'' ''plain'') \<and>
   token test_platform (test_server ''sha256:verifier-1'' ''S256'') (test_calls 1000)
       (test_redeem None)
     = (Json 400 (ErrorBody ''invalid_request'' ''code_verifier is required''),
        test_server ''sha256:verifier-1'' ''S256'')"
proof -
  { fix x :: "string option" and ch m :: string and c :: token_calls
    assume ne: "ch \<noteq> []" and mm: "m = ''S256'' \<or> m = ''plain''"
    have grant: "tr_grant_type (test_redeem x) = Some ''authorization_code''"
      by (simp add: test_redeem_def)
    have creds: "clientCredentials test_platform (test_redeem x) = (Some ''client-1'', None)"
      by (simp add: test_redeem_def clientCredentials_def)
    have auth: "authenticateClient (test_server ch m) (Some ''client-1'') None = None"
      by (simp add: authenticateClient_def get_def test_server_def test_client_def)
    have code: "tr_code (test_redeem x) = Some ''code-1''" "''code-1'' \<noteq> []"
      by (simp_all add: test_redeem_def)
    have stored: "authorizationCodes (test_server ch m) ''code-1'' = Some (test_code ch m)"
      by (simp add: test_server_def)
    have owner: "ac_client_id (test_code ch m) = ''client-1''"
      by (simp add: test_code_def)
    have uri: "tr_redirect_uri (test_redeem x) = Some (ac_redirect_uri (test_code ch m))"
      by (simp add: test_code_def test_redeem_def)
    have challenge: "ac_code_challenge (test_code ch m) = Some ch"
      by (simp add: test_code_def)
    have cmethod: "ac_code_challenge_method (test_code ch m) = Some m"
      by (simp add: test_code_def)
    note pkce_verification [OF grant creds auth code stored owner uri challenge ne cmethod mm, of c]
  } note inst = this
  have verifier: "tr_code_verifier (test_redeem x) = x" for x
    by (simp add: test_redeem_def)
  have digest: "sha256_base64url test_platform ''verifier-1'' = ''sha256:verifier-1''"
    by (simp add: test_platform_def)
  have expiry: "now_check (test_calls 1000) \<le> ac_expires_at (test_code ch m)" for ch m
    by (simp add: test_calls_def test_code_def)
  have 1: "\<exists>a t sc. fst (token test_platform (test_server ''sha256:verifier-1'' ''S256'')
       (test_calls 1000) (test_redeem (Some ''verifier-1''))) = Json 200 (TokenBody a ''Bearer'' 3600 t sc)"
    using inst [of "''sha256:verifier-1''" "''S256''" "Some ''verifier-1''" "test_calls 1000"]
      digest expiry verifier by simp
  have 2: "token test_platform (test_server ''verifier-1'' ''plain'') (test_calls 1000)
       (test_redeem (Some ''verifier-2''))
     = (Json 400 (ErrorBody ''invalid_grant'' ''Invalid code_verifier''),
        test_server ''verifier-1'' ''plain'')"
    using inst [of "''verifier-1''" "''plain''" "Some ''verifier-2''" "test_calls 1000"]
      verifier by simp
  have 3: "token test_platform (test_server ''sha256:verifier-1'' ''S256'') (test_calls 1000)
       (test_redeem None)
     = (Json 400 (ErrorBody ''invalid_request'' ''code_verifier is required''),
        test_server ''sha256:verifier-1'' ''S256'')"
    using inst [of "''sha256:verifier-1''" "''S256''" None "test_calls 1000"]
      verifier by (simp add: truthy_def)
  from 1 2 3 show ?thesis by blast
qed

text \<open>
  C1 as stated fails for the empty verifier: it differs from the stored \<open>plain\<close> challenge,
  and the response is \<open>invalid_request\<close>, not \<open>invalid_grant\<close>.
\<close>

theorem pkce_verification_counterexample:
  "'''' \<noteq> ''xyz'' \<and>
   fst (token test_platform (test_server ''xyz'' ''plain'') (test_calls 1000) (test_redeem (Some '''')))
     = Json 400 (ErrorBody ''invalid_request'' ''code_verifier is required'') \<and>
   fst (token test_platform (test_server ''xyz'' ''plain'') (test_calls 1000) (test_redeem (Some '''')))
     \<noteq> Json 400 (ErrorBody ''invalid_grant'' ''Invalid code_verifier'')"
  by (simp add: test_defs token_def clientCredentials_def authenticateClient_def get_def
      authorizationCodeGrant_def pkceCheck_def truthy_def)

subsection \<open>What each handler does to the stores\<close>

lemma token_authorizationCodes:
  "authorizationCodes s k = None \<Longrightarrow> authorizationCodes (snd (token p s c r)) k = None"
  by (simp add: token_def authorizationCodeGrant_def issueTokens_def Let_def
      split: prod.splits option.splits)

lemma token_registeredClients:
  "registeredClients (snd (token p s c r)) = registeredClients s"
  by (simp add: token_def authorizationCodeGrant_def issueTokens_def Let_def
      split: prod.splits option.splits)

lemma token_pendingAuthorizations:
  "pendingAuthorizations (snd (token p s c r)) = pendingAuthorizations s"
  by (simp add: token_def authorizationCodeGrant_def issueTokens_def Let_def
      split: prod.splits option.splits)

lemma register_authorizationCodes:
  "authorizationCodes (snd (register p s uuid secureToken now r)) = authorizationCodes s"
  by (simp add: register_def Let_def split: option.splits)

lemma register_pendingAuthorizations:
  "pendingAuthorizations (snd (register p s uuid secureToken now r)) = pendingAuthorizations s"
  by (simp add: register_def Let_def split: option.splits)

lemma authorize_authorizationCodes:
  "authorizationCodes (snd (authorize p s internalState r)) = authorizationCodes s"
  by (simp add: authorize_def Let_def split: option.splits)

lemma callback_authorizationCodes:
  "authorizationCodes s k = None \<Longrightarrow> authCode \<noteq> k \<Longrightarrow>
   authorizationCodes (snd (callback p s tokenResponse authCode now r)) k = None"
  by (simp add: callback_def Let_def split: option.splits)

lemma handle_authorizationCodes:
  "authorizationCodes s k = None \<Longrightarrow> minted e \<noteq> Some k \<Longrightarrow>
   authorizationCodes (snd (handle p s e)) k = None"
  by (cases e)
     (simp_all add: register_authorizationCodes authorize_authorizationCodes
       callback_authorizationCodes token_authorizationCodes)

lemma run_authorizationCodes:
  "authorizationCodes s k = None \<Longrightarrow> \<forall>e \<in> set es. minted e \<noteq> Some k \<Longrightarrow>
   authorizationCodes (run p s es) k = None"
  by (induction es arbitrary: s) (simp_all add: handle_authorizationCodes)

lemma token_success:
  assumes "token p s c r = (Json 200 body, s1)"
    and "tr_grant_type r = Some ''authorization_code''"
    and "tr_code r = Some code"
  shows "code \<noteq> [] \<and> authorizationCodes s1 code = None \<and>
         registeredClients s1 = registeredClients s \<and>
         authenticateClient s (fst (clientCredentials p r)) (snd (clientCredentials p r)) = None"
  using assms
  by (auto simp: token_def authorizationCodeGrant_def issueTokens_def Let_def authenticateClient_def pkceCheck_def
      split: prod.splits option.splits if_splits)

lemma authenticateClient_cong:
  "registeredClients s' = registeredClients s \<Longrightarrow>
   authenticateClient s' clientId clientSecret = authenticateClient s clientId clientSecret"
  by (simp add: authenticateClient_def)

lemma token_absent:
  assumes "tr_grant_type r = Some ''authorization_code''"
    and "tr_code r = Some code" "code \<noteq> []"
    and "authorizationCodes s code = None"
  shows "token p s c r =
     (case authenticateClient s (fst (clientCredentials p r)) (snd (clientCredentials p r)) of
        Some failure \<Rightarrow> (failure, s)
      | None \<Rightarrow>
          (Json 400 (ErrorBody ''invalid_grant'' ''Invalid or expired authorization code''), s))"
  using assms
  by (simp add: token_def authorizationCodeGrant_def split: prod.splits option.splits)

lemma authenticateClient_failure:
  "authenticateClient s clientId clientSecret = Some f \<Longrightarrow>
   \<exists>d. f = Json 401 (ErrorBody ''invalid_client'' d)"
  by (auto simp: authenticateClient_def split: option.splits if_splits)

lemma authorize_registeredClients:
  "registeredClients (snd (authorize p s internalState r)) = registeredClients s"
  by (simp add: authorize_def Let_def split: option.splits)

subsection \<open>Single-use authorization codes\<close>

text \<open>
  Claim C2. Let a request of the \<open>authorization_code\<close> grant redeem \<open>code\<close> with success,
  leaving the server \<open>s1\<close>. The same request, repeated at any time, is answered with
  \<open>invalid_grant\<close>. After any further requests \<open>es\<close>, none of them a callback that
  stores a new code under the same string, every request that redeems \<open>code\<close> is
  answered with \<open>invalid_grant\<close> once its client is authenticated, and none succeeds.
\<close>

theorem single_use_codes:
  assumes first: "token p s c r = (Json 200 body, s1)"
    and grant: "tr_grant_type r = Some ''authorization_code''"
    and code: "tr_code r = Some code"
    and later: "\<forall>e \<in> set es. minted e \<noteq> Some code"
    and grant': "tr_grant_type r' = Some ''authorization_code''"
    and code': "tr_code r' = Some code"
  shows "token p s1 c' r =
           (Json 400 (ErrorBody ''invalid_grant'' ''Invalid or expired authorization code''), s1) \<and>
         (authenticateClient (run p s1 es) (fst (clientCredentials p r'))
              (snd (clientCredentials p r')) = None \<longrightarrow>
            token p (run p s1 es) c' r' =
              (Json 400 (ErrorBody ''invalid_grant'' ''Invalid or expired authorization code''),
               run p s1 es)) \<and>
         (\<forall>body'. fst (token p (run p s1 es) c' r') \<noteq> Json 200 body')"
proof -
  from token_success [OF first grant code]
  have ne: "code \<noteq> []" and gone: "authorizationCodes s1 code = None"
    and reg: "registeredClients s1 = registeredClients s"
    and ok: "authenticateClient s (fst (clientCredentials p r)) (snd (clientCredentials p r)) = None"
    by simp_all
  have "authenticateClient s1 (fst (clientCredentials p r)) (snd (clientCredentials p r)) = None"
    using ok authenticateClient_cong [OF reg] by simp
  then have replay: "token p s1 c' r =
      (Json 400 (ErrorBody ''invalid_grant'' ''Invalid or expired authorization code''), s1)"
    using token_absent [OF grant code ne gone] by simp
  have gone': "authorizationCodes (run p s1 es) code = None"
    using run_authorizationCodes [OF gone later] .
  note absent = token_absent [OF grant' code' ne gone', of p c']
  have auth: "authenticateClient (run p s1 es) (fst (clientCredentials p r'))
              (snd (clientCredentials p r')) = None \<longrightarrow>
            token p (run p s1 es) c' r' =
              (Json 400 (ErrorBody ''invalid_grant'' ''Invalid or expired authorization code''),
               run p s1 es)"
    using absent by simp
  have never: "\<forall>body'. fst (token p (run p s1 es) c' r') \<noteq> Json 200 body'"
  proof (cases "authenticateClient (run p s1 es) (fst (clientCredentials p r'))
              (snd (clientCredentials p r'))")
    case None
    then show ?thesis using absent by simp
  next
    case (Some f)
    then show ?thesis using absent authenticateClient_failure [OF Some] by auto
  qed
  from replay auth never show ?thesis by blast
qed

text \<open>C2 on a concrete server: a replay, and a later attempt with another verifier.\<close>

theorem single_use_codes_witness:
  "token test_platform
     (snd (token test_platform (test_server ''verifier-1'' ''plain'') (test_calls 1000)
        (test_redeem (Some ''verifier-1''))))
     (test_calls 2000) (test_redeem (Some ''verifier-1''))
   = (Json 400 (ErrorBody ''invalid_grant'' ''Invalid or expired authorization code''),
      snd (token test_platform (test_server ''verifier-1'' ''plain'') (test_calls 1000)
        (test_redeem (Some ''verifier-1'')))) \<and>
   fst (token test_platform
     (run test_platform
        (snd (token test_platform (test_server ''verifier-1'' ''plain'') (test_calls 1000)
           (test_redeem (Some ''verifier-1''))))
        [Authorize ''state-1'' (test_authorize None)])
     (test_calls 2000) (test_redeem (Some ''verifier-2'')))
   = Json 400 (ErrorBody ''invalid_grant'' ''Invalid or expired authorization code'')"
proof -
  let ?p = test_platform
  let ?s = "test_server ''verifier-1'' ''plain''"
  let ?r = "test_redeem (Some ''verifier-1'')"
  let ?r' = "test_redeem (Some ''verifier-2'')"
  let ?s1 = "snd (token ?p ?s (test_calls 1000) ?r)"
  let ?es = "[Authorize ''state-1'' (test_authorize None)]"
  have "\<exists>body. fst (token ?p ?s (test_calls 1000) ?r) = Json 200 body"
    by (simp add: test_defs token_def clientCredentials_def authenticateClient_def get_def
        authorizationCodeGrant_def pkceCheck_def verifyCodeChallenge_def truthy_def
        issueTokens_def)
  then obtain body where first: "token ?p ?s (test_calls 1000) ?r = (Json 200 body, ?s1)"
    by (metis prod.collapse)
  have grant: "tr_grant_type (test_redeem x) = Some ''authorization_code''" for x
    by (simp add: test_redeem_def)
  have code: "tr_code (test_redeem x) = Some ''code-1''" for x
    by (simp add: test_redeem_def)
  have later: "\<forall>e \<in> set ?es. minted e \<noteq> Some ''code-1''"
    by simp
  have creds: "clientCredentials ?p (test_redeem x) = (Some ''client-1'', None)" for x
    by (simp add: test_redeem_def clientCredentials_def)
  have "registeredClients (run ?p ?s1 ?es) = registeredClients ?s"
    by (simp add: authorize_registeredClients token_registeredClients)
  then have auth: "authenticateClient (run ?p ?s1 ?es) (fst (clientCredentials ?p ?r'))
      (snd (clientCredentials ?p ?r')) = None"
    by (simp add: creds authenticateClient_def get_def test_server_def test_client_def)
  note inst = single_use_codes [OF first grant code later grant code, of "test_calls 2000"
      "Some ''verifier-2''"]
  from inst auth show ?thesis by simp
qed

subsection \<open>A failed redemption keeps the code\<close>

lemma token_deletes_only:
  "snd (token p s c r) = s \<or>
   (\<exists>code. tr_code r = Some code \<and>
      snd (token p s c r) = s\<lparr>authorizationCodes := (authorizationCodes s)(code := None)\<rparr> \<and>
      (fst (token p s c r) = Json 400 (ErrorBody ''invalid_grant'' ''Authorization code has expired'')
       \<or> (\<exists>body. fst (token p s c r) = Json 200 body)))"
  by (simp add: token_def authorizationCodeGrant_def issueTokens_def Let_def
      split: prod.splits option.splits)

lemma stateful_refreshTokenGrant_authorizationCodes:
  "authorizationCodes (snd (stateful_refreshTokenGrant s c r clientId)) = authorizationCodes s"
  by (simp add: stateful_refreshTokenGrant_def Let_def split: option.splits prod.splits)

lemma stateful_issueTokens_deletes:
  "authorizationCodes (snd (stateful_issueTokens s c clientId code authCode))
     = (authorizationCodes s)(code := None) \<and>
   (fst (stateful_issueTokens s c clientId code authCode)
      = Json 400 (ErrorBody ''invalid_grant'' ''Authorization code has expired'')
    \<or> (\<exists>body. fst (stateful_issueTokens s c clientId code authCode) = Json 200 body))"
  by (simp add: stateful_issueTokens_def Let_def)

lemma stateful_authorizationCodeGrant_deletes_only:
  "authorizationCodes (snd (stateful_authorizationCodeGrant p s c r clientId)) = authorizationCodes s \<or>
   (\<exists>code. tr_code r = Some code \<and>
      authorizationCodes (snd (stateful_authorizationCodeGrant p s c r clientId))
        = (authorizationCodes s)(code := None) \<and>
      (fst (stateful_authorizationCodeGrant p s c r clientId)
         = Json 400 (ErrorBody ''invalid_grant'' ''Authorization code has expired'')
       \<or> (\<exists>body. fst (stateful_authorizationCodeGrant p s c r clientId) = Json 200 body)))"
  using stateful_issueTokens_deletes
  by (simp add: stateful_authorizationCodeGrant_def split: option.splits)

lemma stateful_token_deletes_only:
  "authorizationCodes (snd (stateful_token p s c r)) = authorizationCodes s \<or>
   (\<exists>code. tr_code r = Some code \<and>
      authorizationCodes (snd (stateful_token p s c r)) = (authorizationCodes s)(code := None) \<and>
      (fst (stateful_token p s c r)
         = Json 400 (ErrorBody ''invalid_grant'' ''Authorization code has expired'')
       \<or> (\<exists>body. fst (stateful_token p s c r) = Json 200 body)))"
proof (cases "clientCredentials p r")
  case (Pair clientId clientSecret)
  show ?thesis
  proof (cases "authenticateClient s clientId clientSecret")
    case (Some failure)
    with Pair show ?thesis by (simp add: stateful_token_def)
  next
    case None
    show ?thesis
    proof (cases "tr_grant_type r = Some ''authorization_code''")
      case True
      with Pair None have "stateful_token p s c r = stateful_authorizationCodeGrant p s c r clientId"
        by (simp add: stateful_token_def)
      then show ?thesis using stateful_authorizationCodeGrant_deletes_only [of p s c r clientId]
        by simp
    next
      case False
      with Pair None show ?thesis
        by (simp add: stateful_token_def stateful_refreshTokenGrant_authorizationCodes)
    qed
  qed
qed

text \<open>
  Claim C10, for the token endpoint with stateless tokens (\<open>token\<close>) and for the one
  with server-held tokens (\<open>stateful_token\<close>). Let an authenticated request of the
  \<open>authorization_code\<close> grant present a stored code and fail the ownership check, the
  \<open>redirect_uri\<close> comparison or the PKCE block. Then the response is an error with
  status 400 and the server is unchanged, and a later request \<open>r2\<close> of the owning
  client with the stored \<open>redirect_uri\<close> and a verifier that passes PKCE still redeems
  the code, if it has not expired by then. Whatever the request, \<open>authorizationCodes\<close>
  changes only with the response "Authorization code has expired" or with status 200.
\<close>

theorem failed_redemption_keeps_code:
  assumes grant: "tr_grant_type r = Some ''authorization_code''"
    and creds: "clientCredentials p r = (clientId, secret)"
    and auth: "authenticateClient s clientId secret = None"
    and code: "tr_code r = Some code" "code \<noteq> []"
    and stored: "authorizationCodes s code = Some authCode"
    and failure: "Some (ac_client_id authCode) \<noteq> clientId
                  \<or> Some (ac_redirect_uri authCode) \<noteq> tr_redirect_uri r
                  \<or> pkceCheck p authCode (tr_code_verifier r) \<noteq> None"
    and grant2: "tr_grant_type r2 = Some ''authorization_code''"
    and creds2: "clientCredentials p r2 = (Some (ac_client_id authCode), secret2)"
    and auth2: "authenticateClient s (Some (ac_client_id authCode)) secret2 = None"
    and code2: "tr_code r2 = Some code"
    and uri2: "tr_redirect_uri r2 = Some (ac_redirect_uri authCode)"
    and pkce2: "pkceCheck p authCode (tr_code_verifier r2) = None"
  shows "snd (token p s c r) = s \<and>
         (\<exists>e d. fst (token p s c r) = Json 400 (ErrorBody e d)) \<and>
         (now_check c2 \<le> ac_expires_at authCode \<longrightarrow>
            (\<exists>body. fst (token p (snd (token p s c r)) c2 r2) = Json 200 body)) \<and>
         snd (stateful_token p s d r) = s \<and>
         (\<exists>e d'. fst (stateful_token p s d r) = Json 400 (ErrorBody e d')) \<and>
         (sf_now_check d2 \<le> ac_expires_at authCode \<longrightarrow>
            (\<exists>body. fst (stateful_token p (snd (stateful_token p s d r)) d2 r2) = Json 200 body)) \<and>
         (\<forall>c' r'. authorizationCodes (snd (token p s c' r')) \<noteq> authorizationCodes s \<longrightarrow>
            fst (token p s c' r')
              = Json 400 (ErrorBody ''invalid_grant'' ''Authorization code has expired'')
            \<or> (\<exists>body. fst (token p s c' r') = Json 200 body)) \<and>
         (\<forall>d' r'. authorizationCodes (snd (stateful_token p s d' r')) \<noteq> authorizationCodes s \<longrightarrow>
            fst (stateful_token p s d' r')
              = Json 400 (ErrorBody ''invalid_grant'' ''Authorization code has expired'')
            \<or> (\<exists>body. fst (stateful_token p s d' r') = Json 200 body))"
proof -
  have keep: "token p s c r = (fst (token p s c r), s)"
    and err: "\<exists>e d. fst (token p s c r) = Json 400 (ErrorBody e d)"
    using grant creds auth code stored failure
    by (auto simp: token_def authorizationCodeGrant_def pkceCheck_def split: option.splits if_splits)
  have keep': "stateful_token p s d r = (fst (stateful_token p s d r), s)"
    and err': "\<exists>e d'. fst (stateful_token p s d r) = Json 400 (ErrorBody e d')"
    using grant creds auth code stored failure
    by (auto simp: stateful_token_def stateful_authorizationCodeGrant_def pkceCheck_def
        split: option.splits if_splits)
  have same: "snd (token p s c r) = s" and same': "snd (stateful_token p s d r) = s"
    using keep keep' by (metis snd_conv)+
  have again: "now_check c2 \<le> ac_expires_at authCode \<longrightarrow>
      (\<exists>body. fst (token p s c2 r2) = Json 200 body)"
    using grant2 creds2 auth2 code2 code(2) stored uri2 pkce2
    by (simp add: token_def authorizationCodeGrant_def issueTokens_def Let_def)
  have again': "sf_now_check d2 \<le> ac_expires_at authCode \<longrightarrow>
      (\<exists>body. fst (stateful_token p s d2 r2) = Json 200 body)"
    using grant2 creds2 auth2 code2 code(2) stored uri2 pkce2
    by (simp add: stateful_token_def stateful_authorizationCodeGrant_def
        stateful_issueTokens_def Let_def)
  have only: "authorizationCodes (snd (token p s c' r')) \<noteq> authorizationCodes s \<longrightarrow>
            fst (token p s c' r')
              = Json 400 (ErrorBody ''invalid_grant'' ''Authorization code has expired'')
            \<or> (\<exists>body. fst (token p s c' r') = Json 200 body)" for c' r'
    using token_deletes_only [of p s c' r'] by auto
  have only': "authorizationCodes (snd (stateful_token p s d' r')) \<noteq> authorizationCodes s \<longrightarrow>
            fst (stateful_token p s d' r')
              = Json 400 (ErrorBody ''invalid_grant'' ''Authorization code has expired'')
            \<or> (\<exists>body. fst (stateful_token p s d' r') = Json 200 body)" for d' r'
    using stateful_token_deletes_only [of p s d' r'] by auto
  show ?thesis
    using same err again same' err' again' only only' by simp
qed

text \<open>C10 on a concrete server: a wrong verifier, then the right one.\<close>

theorem failed_redemption_keeps_code_witness:
  "snd (token test_platform (test_server ''verifier-1'' ''plain'') (test_calls 1000)
          (test_redeem (Some ''verifier-2''))) = test_server ''verifier-1'' ''plain'' \<and>
   (\<exists>body. fst (token test_platform
        (snd (token test_platform (test_server ''verifier-1'' ''plain'') (test_calls 1000)
          (test_redeem (Some ''verifier-2''))))
        (test_calls 2000) (test_redeem (Some ''verifier-1''))) = Json 200 body) \<and>
   snd (stateful_token test_platform (test_server ''verifier-1'' ''plain'') (test_stateful_calls 1000)
          (test_redeem (Some ''verifier-2''))) = test_server ''verifier-1'' ''plain'' \<and>
   (\<exists>body. fst (stateful_token test_platform
        (snd (stateful_token test_platform (test_server ''verifier-1'' ''plain'')
          (test_stateful_calls 1000) (test_redeem (Some ''verifier-2''))))
        (test_stateful_calls 2000) (test_redeem (Some ''verifier-1''))) = Json 200 body)"
proof -
  let ?s = "test_server ''verifier-1'' ''plain''"
  let ?ac = "test_code ''verifier-1'' ''plain''"
  have grant: "tr_grant_type (test_redeem x) = Some ''authorization_code''" for x
    by (simp add: test_redeem_def)
  have creds: "clientCredentials test_platform (test_redeem x) = (Some ''client-1'', None)" for x
    by (simp add: test_redeem_def clientCredentials_def)
  have auth: "authenticateClient ?s (Some ''client-1'') None = None"
    by (simp add: authenticateClient_def get_def test_server_def test_client_def)
  have code: "tr_code (test_redeem x) = Some ''code-1''" "''code-1'' \<noteq> []" for x
    by (simp_all add: test_redeem_def)
  have stored: "authorizationCodes ?s ''code-1'' = Some ?ac"
    by (simp add: test_server_def)
  have failure: "Some (ac_client_id ?ac) \<noteq> Some ''client-1''
      \<or> Some (ac_redirect_uri ?ac) \<noteq> tr_redirect_uri (test_redeem (Some ''verifier-2''))
      \<or> pkceCheck test_platform ?ac (tr_code_verifier (test_redeem (Some ''verifier-2''))) \<noteq> None"
    by (simp add: pkceCheck_def verifyCodeChallenge_def truthy_def test_code_def test_redeem_def)
  have owner: "ac_client_id ?ac = ''client-1''"
    by (simp add: test_code_def)
  have uri2: "tr_redirect_uri (test_redeem (Some ''verifier-1'')) = Some (ac_redirect_uri ?ac)"
    by (simp add: test_code_def test_redeem_def)
  have pkce2: "pkceCheck test_platform ?ac (tr_code_verifier (test_redeem (Some ''verifier-1''))) = None"
    by (simp add: pkceCheck_def verifyCodeChallenge_def truthy_def test_code_def test_redeem_def)
  have expiry: "now_check (test_calls 2000) \<le> ac_expires_at ?ac"
      "sf_now_check (test_stateful_calls 2000) \<le> ac_expires_at ?ac"
    by (simp_all add: test_calls_def test_stateful_calls_def test_code_def)
  note inst = failed_redemption_keeps_code [OF grant creds auth code stored failure grant
      creds [unfolded owner [symmetric]] auth [unfolded owner [symmetric]] code(1) uri2 pkce2,
      of "test_calls 1000" "test_calls 2000" "test_stateful_calls 1000" "test_stateful_calls 2000"]
  from inst expiry show ?thesis by blast
qed

subsection \<open>Decoded tokens of the wrong kind\<close>

lemma decryptTokenPayload_empty:
  "base64url_decode p [] = [] \<Longrightarrow> decryptTokenPayload p [] = None"
  by (simp add: decryptTokenPayload_def)

lemma test_decrypt:
  "decryptTokenPayload test_platform ''aaaaaaaaaaaaaaaattttttttttttttttaccess''
     = test_json_parse ''access''"
  "decryptTokenPayload test_platform ''aaaaaaaaaaaaaaaattttttttttttttttrefresh''
     = test_json_parse ''refresh''"
  by (simp_all add: decryptTokenPayload_def test_platform_def)

text \<open>
  Claim C5. Let a token decrypt to a payload (decoding the empty string gives the empty
  buffer, so the token is not empty). If the payload's \<open>type\<close> is not \<open>refresh\<close>, the
  \<open>refresh_token\<close> grant answers \<open>invalid_grant\<close> and changes nothing. If it is not
  \<open>access\<close>, \<open>validateAccessToken\<close> returns \<open>null\<close>, and so does
  \<open>getQuickBooksCredentials\<close>.
\<close>

theorem wrong_kind_rejected:
  assumes empty: "base64url_decode p [] = []"
    and dec: "decryptTokenPayload p tok = Some payload"
  shows "(tp_type payload \<noteq> ''refresh'' \<and> tr_grant_type r = Some ''refresh_token''
            \<and> tr_refresh_token r = Some tok \<longrightarrow>
          token p s c r =
            (Json 400 (ErrorBody ''invalid_grant'' ''Token is not a refresh token''), s)) \<and>
         (tp_type payload \<noteq> ''access'' \<longrightarrow>
          validateAccessToken p s now tok = (None, s) \<and>
          getQuickBooksCredentials p s now tok = (None, s))"
proof -
  have ne: "tok \<noteq> []"
    using decryptTokenPayload_empty [OF empty] dec by auto
  have refresh: "tp_type payload \<noteq> ''refresh'' \<and> tr_grant_type r = Some ''refresh_token''
            \<and> tr_refresh_token r = Some tok \<longrightarrow>
          token p s c r =
            (Json 400 (ErrorBody ''invalid_grant'' ''Token is not a refresh token''), s)"
    using dec ne
    by (simp add: token_def refreshTokenGrant_def truthy_def split: prod.splits)
  have access: "tp_type payload \<noteq> ''access'' \<longrightarrow>
          validateAccessToken p s now tok = (None, s) \<and>
          getQuickBooksCredentials p s now tok = (None, s)"
    using dec by (simp add: validateAccessToken_def getQuickBooksCredentials_def)
  from refresh access show ?thesis by blast
qed

text \<open>C5 on concrete tokens: an access token as refresh token, and the converse.\<close>

theorem wrong_kind_rejected_witness:
  "token test_platform (test_server ''verifier-1'' ''plain'') (test_calls 1000)
       (test_refresh ''aaaaaaaaaaaaaaaattttttttttttttttaccess'')
     = (Json 400 (ErrorBody ''invalid_grant'' ''Token is not a refresh token''),
        test_server ''verifier-1'' ''plain'') \<and>
   validateAccessToken test_platform (test_server ''verifier-1'' ''plain'') 1000
       ''aaaaaaaaaaaaaaaattttttttttttttttrefresh''
     = (None, test_server ''verifier-1'' ''plain'')"
proof -
  have empty: "base64url_decode test_platform [] = []"
    by (simp add: test_platform_def)
  have dec: "decryptTokenPayload test_platform ''aaaaaaaaaaaaaaaattttttttttttttttaccess''
      = Some \<lparr>tp_type = ''access'', tp_client_id = ''client-1'', tp_realm_id = Some ''realm-1'',
              tp_qb_access_token = Some ''qb-access'', tp_qb_refresh_token = Some ''qb-refresh'',
              tp_expires_at = 5000, tp_issued_at = 1000\<rparr>"
    by (simp add: test_decrypt test_json_parse_def)
  have dec': "decryptTokenPayload test_platform ''aaaaaaaaaaaaaaaattttttttttttttttrefresh''
      = Some \<lparr>tp_type = ''refresh'', tp_client_id = ''client-1'', tp_realm_id = Some ''realm-1'',
              tp_qb_access_token = Some ''qb-access'', tp_qb_refresh_token = Some ''qb-refresh'',
              tp_expires_at = 5000, tp_issued_at = 1000\<rparr>"
    by (simp add: test_decrypt test_json_parse_def)
  have 1: "token test_platform (test_server ''verifier-1'' ''plain'') (test_calls 1000)
       (test_refresh ''aaaaaaaaaaaaaaaattttttttttttttttaccess'')
     = (Json 400 (ErrorBody ''invalid_grant'' ''Token is not a refresh token''),
        test_server ''verifier-1'' ''plain'')"
    using wrong_kind_rejected [OF empty dec,
        of "test_refresh ''aaaaaaaaaaaaaaaattttttttttttttttaccess''"]
    by (simp add: test_refresh_def)
  have 2: "validateAccessToken test_platform (test_server ''verifier-1'' ''plain'') 1000
       ''aaaaaaaaaaaaaaaattttttttttttttttrefresh''
     = (None, test_server ''verifier-1'' ''plain'')"
    using wrong_kind_rejected [OF empty dec'] by simp
  from 1 2 show ?thesis by blast
qed

subsection \<open>Expiry\<close>

text \<open>
  Claim C4, as the code has it: every expiry check is \<open>Date.now() > expires_at\<close>.
  The three parts are independent, each under its own hypotheses and on its own server.
  An access token that decrypts to an \<open>access\<close> payload validates at every time up to
  and including its \<open>expires_at\<close>, and is rejected after it. A stored authorization
  code whose other checks pass is redeemed at every time up to and including its
  \<open>expires_at\<close>; after it the response is \<open>invalid_grant\<close>; both delete the code.
  A refresh token that decrypts to a \<open>refresh\<close> payload of the requesting client is
  accepted up to and including its \<open>expires_at\<close> and answered with \<open>invalid_grant\<close>
  after it.
\<close>

theorem expiry_boundary:
  "(decryptTokenPayload p tok = Some payload \<and> tp_type payload = ''access'' \<longrightarrow>
      (now \<le> tp_expires_at payload \<longrightarrow>
         (\<exists>tokenData. validateAccessToken p sa now tok = (Some tokenData, sa))) \<and>
      (now > tp_expires_at payload \<longrightarrow> validateAccessToken p sa now tok = (None, sa))) \<and>
   (tr_grant_type r = Some ''authorization_code'' \<and>
    clientCredentials p r = (Some cid, secret) \<and>
    authenticateClient s (Some cid) secret = None \<and>
    tr_code r = Some code \<and> code \<noteq> [] \<and>
    authorizationCodes s code = Some authCode \<and>
    ac_client_id authCode = cid \<and>
    tr_redirect_uri r = Some (ac_redirect_uri authCode) \<and>
    pkceCheck p authCode (tr_code_verifier r) = None \<longrightarrow>
      (now_check c \<le> ac_expires_at authCode \<longrightarrow>
         (\<exists>body. token p s c r =
            (Json 200 body, s\<lparr>authorizationCodes := (authorizationCodes s)(code := None)\<rparr>))) \<and>
      (now_check c > ac_expires_at authCode \<longrightarrow>
         token p s c r =
           (Json 400 (ErrorBody ''invalid_grant'' ''Authorization code has expired''),
            s\<lparr>authorizationCodes := (authorizationCodes s)(code := None)\<rparr>))) \<and>
   (base64url_decode p [] = [] \<and>
    decryptTokenPayload p rtok = Some rpayload \<and> tp_type rpayload = ''refresh'' \<and>
    tr_grant_type r2 = Some ''refresh_token'' \<and> tr_refresh_token r2 = Some rtok \<and>
    (\<not> truthy (fst (clientCredentials p r2))
     \<or> fst (clientCredentials p r2) = Some (tp_client_id rpayload)) \<longrightarrow>
      (now_check c2 \<le> tp_expires_at rpayload \<longrightarrow>
         (\<exists>body. token p sr c2 r2 = (Json 200 body, sr))) \<and>
      (now_check c2 > tp_expires_at rpayload \<longrightarrow>
         token p sr c2 r2 =
           (Json 400 (ErrorBody ''invalid_grant'' ''Refresh token has expired''), sr)))"
proof -
  have access: "(now \<le> tp_expires_at payload \<longrightarrow>
         (\<exists>tokenData. validateAccessToken p sa now tok = (Some tokenData, sa))) \<and>
      (now > tp_expires_at payload \<longrightarrow> validateAccessToken p sa now tok = (None, sa))"
    if "decryptTokenPayload p tok = Some payload" "tp_type payload = ''access''"
    using that by (simp add: validateAccessToken_def)
  have codes: "(now_check c \<le> ac_expires_at authCode \<longrightarrow>
         (\<exists>body. token p s c r =
            (Json 200 body, s\<lparr>authorizationCodes := (authorizationCodes s)(code := None)\<rparr>))) \<and>
      (now_check c > ac_expires_at authCode \<longrightarrow>
         token p s c r =
           (Json 400 (ErrorBody ''invalid_grant'' ''Authorization code has expired''),
            s\<lparr>authorizationCodes := (authorizationCodes s)(code := None)\<rparr>))"
    if "tr_grant_type r = Some ''authorization_code''"
      "clientCredentials p r = (Some cid, secret)"
      "authenticateClient s (Some cid) secret = None"
      "tr_code r = Some code" "code \<noteq> []"
      "authorizationCodes s code = Some authCode"
      "ac_client_id authCode = cid"
      "tr_redirect_uri r = Some (ac_redirect_uri authCode)"
      "pkceCheck p authCode (tr_code_verifier r) = None"
  proof -
    have redeem: "token p s c r = issueTokens p s c cid code authCode"
      using that by (simp add: token_def authorizationCodeGrant_def)
    show ?thesis
      unfolding redeem by (simp add: issueTokens_def Let_def)
  qed
  have refresh: "(now_check c2 \<le> tp_expires_at rpayload \<longrightarrow>
         (\<exists>body. token p sr c2 r2 = (Json 200 body, sr))) \<and>
      (now_check c2 > tp_expires_at rpayload \<longrightarrow>
         token p sr c2 r2 =
           (Json 400 (ErrorBody ''invalid_grant'' ''Refresh token has expired''), sr))"
    if empty: "base64url_decode p [] = []"
      and rdec: "decryptTokenPayload p rtok = Some rpayload"
      and rkind: "tp_type rpayload = ''refresh''"
      and rgrant: "tr_grant_type r2 = Some ''refresh_token''"
      and rtoken: "tr_refresh_token r2 = Some rtok"
      and rclient: "\<not> truthy (fst (clientCredentials p r2))
                    \<or> fst (clientCredentials p r2) = Some (tp_client_id rpayload)"
  proof -
    have ne: "rtok \<noteq> []"
      using decryptTokenPayload_empty [OF empty] rdec by auto
    obtain clientId clientSecret where cc: "clientCredentials p r2 = (clientId, clientSecret)"
      by (cases "clientCredentials p r2")
    have grant2: "token p sr c2 r2 = (refreshTokenGrant p c2 r2 clientId, sr)"
      using rgrant cc by (simp add: token_def)
    have rc: "\<not> (truthy clientId \<and> Some (tp_client_id rpayload) \<noteq> clientId)"
      using rclient cc by auto
    have late: "now_check c2 > tp_expires_at rpayload \<longrightarrow>
        refreshTokenGrant p c2 r2 clientId
          = Json 400 (ErrorBody ''invalid_grant'' ''Refresh token has expired'')"
      using rdec rkind rtoken ne by (simp add: refreshTokenGrant_def truthy_def)
    have early: "now_check c2 \<le> tp_expires_at rpayload \<longrightarrow>
        (\<exists>body. refreshTokenGrant p c2 r2 clientId = Json 200 body)"
      using rdec rkind rtoken ne rc
      by (simp add: refreshTokenGrant_def Let_def split: prod.splits) (auto simp: truthy_def)
    from early late grant2 show ?thesis by simp
  qed
  show ?thesis
    by (intro conjI; rule impI; elim conjE; (rule access codes refresh; assumption))
qed

text \<open>
  C4 one millisecond before and one after \<open>expires_at = 5000\<close>; the access token and
  the refresh token are presented to a server that stores no code.
\<close>

theorem expiry_boundary_witness:
  "(\<exists>tokenData. validateAccessToken test_platform
       ((test_server ''verifier-1'' ''plain'')\<lparr>authorizationCodes := Map.empty\<rparr>) 4999
       ''aaaaaaaaaaaaaaaattttttttttttttttaccess''
     = (Some tokenData, (test_server ''verifier-1'' ''plain'')\<lparr>authorizationCodes := Map.empty\<rparr>)) \<and>
   validateAccessToken test_platform
       ((test_server ''verifier-1'' ''plain'')\<lparr>authorizationCodes := Map.empty\<rparr>) 5001
       ''aaaaaaaaaaaaaaaattttttttttttttttaccess''
     = (None, (test_server ''verifier-1'' ''plain'')\<lparr>authorizationCodes := Map.empty\<rparr>) \<and>
   (\<exists>body. fst (token test_platform (test_server ''verifier-1'' ''plain'') (test_calls 4999)
       (test_redeem (Some ''verifier-1''))) = Json 200 body) \<and>
   fst (token test_platform (test_server ''verifier-1'' ''plain'') (test_calls 5001)
       (test_redeem (Some ''verifier-1'')))
     = Json 400 (ErrorBody ''invalid_grant'' ''Authorization code has expired'') \<and>
   (\<exists>body. fst (token test_platform
       ((test_server ''verifier-1'' ''plain'')\<lparr>authorizationCodes := Map.empty\<rparr>) (test_calls 4999)
       (test_refresh ''aaaaaaaaaaaaaaaattttttttttttttttrefresh'')) = Json 200 body) \<and>
   fst (token test_platform
       ((test_server ''verifier-1'' ''plain'')\<lparr>authorizationCodes := Map.empty\<rparr>) (test_calls 5001)
       (test_refresh ''aaaaaaaaaaaaaaaattttttttttttttttrefresh''))
     = Json 400 (ErrorBody ''invalid_grant'' ''Refresh token has expired'')"
proof -
  let ?s = "test_server ''verifier-1'' ''plain''"
  let ?idle = "(test_server ''verifier-1'' ''plain'')\<lparr>authorizationCodes := Map.empty\<rparr>"
  let ?ac = "test_code ''verifier-1'' ''plain''"
  let ?r = "test_redeem (Some ''verifier-1'')"
  let ?r2 = "test_refresh ''aaaaaaaaaaaaaaaattttttttttttttttrefresh''"
  let ?payload = "\<lparr>tp_type = ''access'', tp_client_id = ''client-1'', tp_realm_id = Some ''realm-1'',
              tp_qb_access_token = Some ''qb-access'', tp_qb_refresh_token = Some ''qb-refresh'',
              tp_expires_at = 5000, tp_issued_at = 1000\<rparr>"
  let ?rpayload = "\<lparr>tp_type = ''refresh'', tp_client_id = ''client-1'', tp_realm_id = Some ''realm-1'',
              tp_qb_access_token = Some ''qb-access'', tp_qb_refresh_token = Some ''qb-refresh'',
              tp_expires_at = 5000, tp_issued_at = 1000\<rparr>"
  have access_hyps: "decryptTokenPayload test_platform ''aaaaaaaaaaaaaaaattttttttttttttttaccess''
      = Some ?payload \<and> tp_type ?payload = ''access''"
    by (simp add: test_decrypt test_json_parse_def)
  have code_hyps: "tr_grant_type ?r = Some ''authorization_code'' \<and>
      clientCredentials test_platform ?r = (Some ''client-1'', None) \<and>
      authenticateClient ?s (Some ''client-1'') None = None \<and>
      tr_code ?r = Some ''code-1'' \<and> ''code-1'' \<noteq> [] \<and>
      authorizationCodes ?s ''code-1'' = Some ?ac \<and>
      ac_client_id ?ac = ''client-1'' \<and>
      tr_redirect_uri ?r = Some (ac_redirect_uri ?ac) \<and>
      pkceCheck test_platform ?ac (tr_code_verifier ?r) = None"
    by (simp add: test_redeem_def clientCredentials_def authenticateClient_def get_def
        test_server_def test_client_def test_code_def pkceCheck_def verifyCodeChallenge_def
        truthy_def)
  have refresh_hyps: "base64url_decode test_platform [] = [] \<and>
      decryptTokenPayload test_platform ''aaaaaaaaaaaaaaaattttttttttttttttrefresh'' = Some ?rpayload \<and>
      tp_type ?rpayload = ''refresh'' \<and>
      tr_grant_type ?r2 = Some ''refresh_token'' \<and>
      tr_refresh_token ?r2 = Some ''aaaaaaaaaaaaaaaattttttttttttttttrefresh'' \<and>
      (\<not> truthy (fst (clientCredentials test_platform ?r2))
       \<or> fst (clientCredentials test_platform ?r2) = Some (tp_client_id ?rpayload))"
  proof -
    have "base64url_decode test_platform [] = []"
      by (simp add: test_platform_def)
    then show ?thesis
      by (simp add: test_decrypt test_json_parse_def test_refresh_def clientCredentials_def
          truthy_def)
  qed
  have times: "now_check (test_calls n) = n" "ac_expires_at ?ac = 5000"
    "tp_expires_at ?payload = 5000" "tp_expires_at ?rpayload = 5000" for n
    by (simp_all add: test_calls_def test_code_def)
  note inst = expiry_boundary [where p = test_platform
      and tok = "''aaaaaaaaaaaaaaaattttttttttttttttaccess''" and payload = ?payload and sa = ?idle
      and r = ?r and cid = "''client-1''" and secret = None and s = ?s and code = "''code-1''"
      and authCode = ?ac and rtok = "''aaaaaaaaaaaaaaaattttttttttttttttrefresh''"
      and rpayload = ?rpayload and ?r2.0 = ?r2 and sr = ?idle]
  note access = inst [THEN conjunct1, THEN mp, OF access_hyps, unfolded times]
  note codes = inst [THEN conjunct2, THEN conjunct1, THEN mp, OF code_hyps, unfolded times]
  note refresh = inst [THEN conjunct2, THEN conjunct2, THEN mp, OF refresh_hyps, unfolded times]
  have 1: "\<exists>tokenData. validateAccessToken test_platform ?idle 4999
       ''aaaaaaaaaaaaaaaattttttttttttttttaccess'' = (Some tokenData, ?idle)"
    using access [of 4999] by simp
  have 2: "validateAccessToken test_platform ?idle 5001
       ''aaaaaaaaaaaaaaaattttttttttttttttaccess'' = (None, ?idle)"
    using access [of 5001] by simp
  have 3: "\<exists>body. fst (token test_platform ?s (test_calls 4999) ?r) = Json 200 body"
    using codes [of "test_calls 4999"] by (auto simp: times)
  have 4: "fst (token test_platform ?s (test_calls 5001) ?r)
     = Json 400 (ErrorBody ''invalid_grant'' ''Authorization code has expired'')"
    using codes [of "test_calls 5001"] by (simp add: times)
  have 5: "\<exists>body. fst (token test_platform ?idle (test_calls 4999) ?r2) = Json 200 body"
    using refresh [of "test_calls 4999"] by (auto simp: times)
  have 6: "fst (token test_platform ?idle (test_calls 5001) ?r2)
     = Json 400 (ErrorBody ''invalid_grant'' ''Refresh token has expired'')"
    using refresh [of "test_calls 5001"] by (simp add: times)
  show ?thesis
    by (rule conjI 1 2 3 4 5 6)+
qed

text \<open>
  C4 as stated asks for a rejection at \<open>expires_at\<close>. At that very time the access
  token validates, the code is redeemed and the refresh token is accepted.
\<close>

theorem expiry_boundary_counterexample:
  "map_option tp_expires_at
     (decryptTokenPayload test_platform ''aaaaaaaaaaaaaaaattttttttttttttttaccess'') = Some 5000 \<and>
   fst (validateAccessToken test_platform (test_server ''verifier-1'' ''plain'') 5000
       ''aaaaaaaaaaaaaaaattttttttttttttttaccess'') \<noteq> None \<and>
   ac_expires_at (test_code ''verifier-1'' ''plain'') = 5000 \<and>
   status (fst (token test_platform (test_server ''verifier-1'' ''plain'') (test_calls 5000)
       (test_redeem (Some ''verifier-1'')))) = Some 200 \<and>
   map_option tp_expires_at
     (decryptTokenPayload test_platform ''aaaaaaaaaaaaaaaattttttttttttttttrefresh'') = Some 5000 \<and>
   status (fst (token test_platform (test_server ''verifier-1'' ''plain'') (test_calls 5000)
       (test_refresh ''aaaaaaaaaaaaaaaattttttttttttttttrefresh''))) = Some 200"
proof -
  have 1: "fst (validateAccessToken test_platform (test_server ''verifier-1'' ''plain'') 5000
       ''aaaaaaaaaaaaaaaattttttttttttttttaccess'') \<noteq> None"
    by (simp add: validateAccessToken_def test_decrypt test_json_parse_def)
  have 2: "status (fst (token test_platform (test_server ''verifier-1'' ''plain'') (test_calls 5000)
       (test_redeem (Some ''verifier-1'')))) = Some 200"
    by (simp add: test_defs token_def clientCredentials_def authenticateClient_def get_def
        authorizationCodeGrant_def pkceCheck_def verifyCodeChallenge_def truthy_def
        issueTokens_def Let_def)
  have 3: "status (fst (token test_platform (test_server ''verifier-1'' ''plain'') (test_calls 5000)
       (test_refresh ''aaaaaaaaaaaaaaaattttttttttttttttrefresh''))) = Some 200"
    by (simp add: token_def clientCredentials_def refreshTokenGrant_def test_decrypt
        test_json_parse_def test_refresh_def test_calls_def truthy_def js_or_def Let_def)
  from 1 2 3 show ?thesis
    by (simp add: test_decrypt test_json_parse_def test_code_def)
qed

subsection \<open>Pending authorizations are consumed once\<close>

lemma authorize_pendingAuthorizations_absent:
  "pendingAuthorizations s k = None \<Longrightarrow> internalState \<noteq> k \<Longrightarrow>
   pendingAuthorizations (snd (authorize p s internalState r)) k = None"
  by (simp add: authorize_def Let_def split: option.splits)

lemma callback_pendingAuthorizations_absent:
  "pendingAuthorizations s k = None \<Longrightarrow>
   pendingAuthorizations (snd (callback p s tokenResponse authCode now r)) k = None"
  by (simp add: callback_def Let_def split: option.splits)

lemma handle_pendingAuthorizations_absent:
  "pendingAuthorizations s k = None \<Longrightarrow> issued e \<noteq> Some k \<Longrightarrow>
   pendingAuthorizations (snd (handle p s e)) k = None"
  by (cases e)
     (simp_all add: register_pendingAuthorizations authorize_pendingAuthorizations_absent
       callback_pendingAuthorizations_absent token_pendingAuthorizations)

lemma run_pendingAuthorizations_absent:
  "pendingAuthorizations s k = None \<Longrightarrow> \<forall>e \<in> set es. issued e \<noteq> Some k \<Longrightarrow>
   pendingAuthorizations (run p s es) k = None"
  by (induction es arbitrary: s) (simp_all add: handle_pendingAuthorizations_absent)

lemma callback_consumes:
  "cq_state r = Some k \<Longrightarrow>
   pendingAuthorizations (snd (callback p s tokenResponse authCode now r)) k = None"
  by (simp add: callback_def Let_def split: option.splits)

lemma callback_absent:
  "get (pendingAuthorizations s) (cq_state r) = None \<Longrightarrow>
   callback p s tokenResponse authCode now r
     = (Send 400 ''Invalid or expired authorization state'', s)"
  by (simp add: callback_def get_def split: option.splits)

text \<open>
  Claim C7. A callback whose \<open>state\<close> has no stored entry is answered with status 400
  and the text "Invalid or expired authorization state"; it is no redirect, and the
  server is unchanged. After any callback, no entry is stored under its \<open>state\<close>:
  the lookup and the deletion are adjacent statements of the handler. So, once a callback
  has consumed \<open>k\<close>, and as long as no \<open>/authorize\<close> request stores a new entry under
  \<open>k\<close>, every callback with state \<open>k\<close> gets that response.
\<close>

theorem pending_one_shot:
  "(get (pendingAuthorizations s) (cq_state r) = None \<longrightarrow>
      callback p s tokenResponse authCode now r
        = (Send 400 ''Invalid or expired authorization state'', s)) \<and>
   (\<forall>k. cq_state r = Some k \<longrightarrow>
      pendingAuthorizations (snd (callback p s tokenResponse authCode now r)) k = None) \<and>
   (\<forall>k. cq_state r = Some k \<and> (\<forall>e \<in> set es. issued e \<noteq> Some k) \<and> cq_state r' = Some k \<longrightarrow>
      callback p (run p (snd (callback p s tokenResponse authCode now r)) es)
          tokenResponse' authCode' now' r'
        = (Send 400 ''Invalid or expired authorization state'',
           run p (snd (callback p s tokenResponse authCode now r)) es))"
proof -
  let ?s1 = "snd (callback p s tokenResponse authCode now r)"
  have later: "callback p (run p ?s1 es) tokenResponse' authCode' now' r'
        = (Send 400 ''Invalid or expired authorization state'', run p ?s1 es)"
    if consumed: "cq_state r = Some k" and fresh: "\<forall>e \<in> set es. issued e \<noteq> Some k"
      and same: "cq_state r' = Some k" for k
  proof -
    have "pendingAuthorizations ?s1 k = None"
      using consumed by (rule callback_consumes)
    then have "pendingAuthorizations (run p ?s1 es) k = None"
      using fresh by (rule run_pendingAuthorizations_absent)
    with same show ?thesis by (simp add: callback_absent get_def)
  qed
  show ?thesis
    using callback_absent [of s r p tokenResponse authCode now] callback_consumes later
    by blast
qed

text \<open>C7 on a concrete server: an unknown state, and a state that was consumed.\<close>

theorem pending_one_shot_witness:
  "callback test_platform (test_server ''verifier-1'' ''plain'') (Some test_qb_token) ''code-2'' 1000
       (test_callback ''state-9'')
     = (Send 400 ''Invalid or expired authorization state'', test_server ''verifier-1'' ''plain'') \<and>
   fst (callback test_platform
     (run test_platform
        (snd (callback test_platform
           (snd (authorize test_platform (test_server ''verifier-1'' ''plain'') ''state-1''
              (test_authorize (Some ''client-state''))))
           (Some test_qb_token) ''code-2'' 1000 (test_callback ''state-1'')))
        [Token (test_calls 1500) (test_redeem (Some ''verifier-1''))])
     (Some test_qb_token) ''code-3'' 2000 (test_callback ''state-1''))
   = Send 400 ''Invalid or expired authorization state''"
proof -
  let ?s = "test_server ''verifier-1'' ''plain''"
  let ?t = "snd (authorize test_platform ?s ''state-1'' (test_authorize (Some ''client-state'')))"
  let ?es = "[Token (test_calls 1500) (test_redeem (Some ''verifier-1''))]"
  have absent: "get (pendingAuthorizations ?s) (cq_state (test_callback ''state-9'')) = None"
    by (simp add: get_def test_callback_def test_server_def)
  have state: "cq_state (test_callback k) = Some k" for k
    by (simp add: test_callback_def)
  have fresh: "\<forall>e \<in> set ?es. issued e \<noteq> Some ''state-1''"
    by simp
  note a = pending_one_shot [of ?s "test_callback ''state-9''" test_platform "Some test_qb_token"
      "''code-2''" 1000, THEN conjunct1, rule_format, OF absent]
  note b = pending_one_shot [of ?t "test_callback ''state-1''" test_platform "Some test_qb_token"
      "''code-2''" 1000 ?es "test_callback ''state-1''" "Some test_qb_token" "''code-3''" 2000,
      THEN conjunct2, THEN conjunct2, rule_format, of "''state-1''"]
  from a b state fresh show ?thesis by simp
qed

subsection \<open>The upstream state is the internal token\<close>

lemma authorize_success:
  assumes "fst (authorize p s internalState r) = RedirectTo url"
  shows "\<exists>client_id redirect_uri.
           aq_client_id r = Some client_id \<and> aq_redirect_uri r = Some redirect_uri \<and>
           truthy (aq_code_challenge r) \<and>
           authorize p s internalState r =
             (RedirectTo (authorizeUri p [scopes_Accounting p] internalState),
              s\<lparr>pendingAuthorizations := (pendingAuthorizations s)(internalState \<mapsto>
                  \<lparr>pa_client_id = client_id, pa_redirect_uri = redirect_uri,
                   pa_state = aq_state r, pa_code_challenge = aq_code_challenge r,
                   pa_code_challenge_method =
                     (case aq_code_challenge_method r of None \<Rightarrow> Some ''S256'' | Some m \<Rightarrow> Some m),
                   pa_scope = aq_scope r\<rparr>)\<rparr>)"
  using assms
  by (auto simp: authorize_def Let_def get_def truthy_def split: option.splits if_splits)

lemma authorize_state_independent:
  assumes "fst (authorize p s internalState r) = RedirectTo url"
  shows "fst (authorize p s internalState (r\<lparr>aq_state := state'\<rparr>)) = RedirectTo url"
  using assms
  by (auto simp: authorize_def Let_def get_def truthy_def split: option.splits if_splits)

lemma callback_present:
  assumes "cq_state q = Some k" and "pendingAuthorizations s k = Some pending"
  shows "fst (callback p s tokenResponse authCode now q) = Thrown \<or>
         (\<exists>params. fst (callback p s tokenResponse authCode now q)
            = RedirectClient (pa_redirect_uri pending) (params @ set_if ''state'' (pa_state pending)))"
  using assms
  by (auto simp: callback_def Let_def split: option.splits)

text \<open>
  What a successful \<open>/authorize\<close> does, for any token \<open>internalState\<close>.
\<close>

lemma authorize_upstream_state:
  assumes success: "fst (authorize p s internalState r) = RedirectTo url"
  shows "url = authorizeUri p [scopes_Accounting p] internalState \<and>
         fst (authorize p s internalState (r\<lparr>aq_state := state'\<rparr>)) = RedirectTo url \<and>
         map_option pa_state
           (pendingAuthorizations (snd (authorize p s internalState r)) internalState)
           = Some (aq_state r) \<and>
         map_option pa_redirect_uri
           (pendingAuthorizations (snd (authorize p s internalState r)) internalState)
           = aq_redirect_uri r \<and>
         (cq_state q = Some internalState \<longrightarrow>
            fst (callback p (snd (authorize p s internalState r)) tokenResponse authCode now q)
              = Thrown \<or>
            (\<exists>uri params. aq_redirect_uri r = Some uri \<and>
               fst (callback p (snd (authorize p s internalState r)) tokenResponse authCode now q)
                 = RedirectClient uri (params @ set_if ''state'' (aq_state r))))"
proof -
  from authorize_success [OF success] obtain client_id redirect_uri where
    uri: "aq_redirect_uri r = Some redirect_uri" and
    result: "authorize p s internalState r =
             (RedirectTo (authorizeUri p [scopes_Accounting p] internalState),
              s\<lparr>pendingAuthorizations := (pendingAuthorizations s)(internalState \<mapsto>
                  \<lparr>pa_client_id = client_id, pa_redirect_uri = redirect_uri,
                   pa_state = aq_state r, pa_code_challenge = aq_code_challenge r,
                   pa_code_challenge_method =
                     (case aq_code_challenge_method r of None \<Rightarrow> Some ''S256'' | Some m \<Rightarrow> Some m),
                   pa_scope = aq_scope r\<rparr>)\<rparr>)"
    by blast
  define pending where "pending =
     \<lparr>pa_client_id = client_id, pa_redirect_uri = redirect_uri,
      pa_state = aq_state r, pa_code_challenge = aq_code_challenge r,
      pa_code_challenge_method =
        (case aq_code_challenge_method r of None \<Rightarrow> Some ''S256'' | Some m \<Rightarrow> Some m),
      pa_scope = aq_scope r\<rparr>"
  have fields: "pa_state pending = aq_state r" "pa_redirect_uri pending = redirect_uri"
    by (simp_all add: pending_def)
  have 1: "url = authorizeUri p [scopes_Accounting p] internalState"
    using success result by simp
  have 2: "fst (authorize p s internalState (r\<lparr>aq_state := state'\<rparr>)) = RedirectTo url"
    using success by (rule authorize_state_independent)
  have stored: "pendingAuthorizations (snd (authorize p s internalState r)) internalState
      = Some pending"
    unfolding result pending_def by simp
  have 3: "map_option pa_state
           (pendingAuthorizations (snd (authorize p s internalState r)) internalState)
           = Some (aq_state r)"
    unfolding stored by (simp add: fields)
  have 4: "map_option pa_redirect_uri
           (pendingAuthorizations (snd (authorize p s internalState r)) internalState)
           = aq_redirect_uri r"
    unfolding stored by (simp add: fields uri)
  have 5: "cq_state q = Some internalState \<longrightarrow>
            fst (callback p (snd (authorize p s internalState r)) tokenResponse authCode now q)
              = Thrown \<or>
            (\<exists>uri params. aq_redirect_uri r = Some uri \<and>
               fst (callback p (snd (authorize p s internalState r)) tokenResponse authCode now q)
                 = RedirectClient uri (params @ set_if ''state'' (aq_state r)))"
  proof
    assume "cq_state q = Some internalState"
    from callback_present [OF this stored, of p tokenResponse authCode now]
    show "fst (callback p (snd (authorize p s internalState r)) tokenResponse authCode now q)
              = Thrown \<or>
            (\<exists>uri params. aq_redirect_uri r = Some uri \<and>
               fst (callback p (snd (authorize p s internalState r)) tokenResponse authCode now q)
                 = RedirectClient uri (params @ set_if ''state'' (aq_state r)))"
      unfolding fields uri by blast
  qed
  show ?thesis
    by (rule conjI 1 2 3 4 5)+
qed

lemma length_toHex: "length (toHex bs) = 2 * length bs"
  by (induction bs) simp_all

lemma hexDigit_mem: "n < 16 \<Longrightarrow> hexDigits ! n \<in> set hexDigits"
  by (rule nth_mem) (simp add: hexDigits_def)

lemma set_toHex: "set (toHex bs) \<subseteq> set hexDigits"
proof (induction bs)
  case Nil
  then show ?case by simp
next
  case (Cons b bs)
  have "(of_char b :: nat) mod 256 = of_char b"
    by simp
  then have "(of_char b :: nat) < 256"
    by (metis mod_less_divisor zero_less_numeral)
  then have "(of_char b :: nat) div 16 < 16"
    by arith
  moreover have "(of_char b :: nat) mod 16 < 16"
    by simp
  ultimately have "hexDigits ! ((of_char b :: nat) div 16) \<in> set hexDigits"
    "hexDigits ! ((of_char b :: nat) mod 16) \<in> set hexDigits"
    by (simp_all add: hexDigit_mem)
  with Cons show ?case
    by simp
qed

lemma test_token:
  "generateSecureToken ''aaaaaaaaaaaaaaaa'' = ''61616161616161616161616161616161''"
  by (simp add: generateSecureToken_def hexDigits_def)

text \<open>
  Claim C8, as the code has it. Let \<open>/authorize\<close> succeed, that is, redirect to a URL
  string, with the token that \<open>generateSecureToken(16)\<close> made from 16 random bytes. The
  URL is the upstream authorize URL for that token as state, and it is the same whatever
  \<open>state\<close> the client sent. The token is a string of 32 lowercase hexadecimal digits,
  so it differs from every client state that is not such a string; the handler never
  compares the two. The client's \<open>state\<close> and \<open>redirect_uri\<close> are stored in the entry
  under the token, and a callback that consumes the entry answers with a redirect to that
  \<open>redirect_uri\<close>, whose last parameter is the client's \<open>state\<close> when there is one (or
  throws, when the \<open>redirect_uri\<close> is no URL).
\<close>

theorem state_separation:
  assumes random: "length randomBytes = 16"
    and success: "fst (authorize p s (generateSecureToken randomBytes) r) = RedirectTo url"
  shows "url = authorizeUri p [scopes_Accounting p] (generateSecureToken randomBytes) \<and>
         length (generateSecureToken randomBytes) = 32 \<and>
         set (generateSecureToken randomBytes) \<subseteq> set hexDigits \<and>
         (\<forall>st. aq_state r = Some st \<and> (length st \<noteq> 32 \<or> \<not> set st \<subseteq> set hexDigits) \<longrightarrow>
            generateSecureToken randomBytes \<noteq> st) \<and>
         fst (authorize p s (generateSecureToken randomBytes) (r\<lparr>aq_state := state'\<rparr>))
           = RedirectTo url \<and>
         map_option pa_state
           (pendingAuthorizations (snd (authorize p s (generateSecureToken randomBytes) r))
              (generateSecureToken randomBytes))
           = Some (aq_state r) \<and>
         map_option pa_redirect_uri
           (pendingAuthorizations (snd (authorize p s (generateSecureToken randomBytes) r))
              (generateSecureToken randomBytes))
           = aq_redirect_uri r \<and>
         (cq_state q = Some (generateSecureToken randomBytes) \<longrightarrow>
            fst (callback p (snd (authorize p s (generateSecureToken randomBytes) r))
                   tokenResponse authCode now q)
              = Thrown \<or>
            (\<exists>uri params. aq_redirect_uri r = Some uri \<and>
               fst (callback p (snd (authorize p s (generateSecureToken randomBytes) r))
                      tokenResponse authCode now q)
                 = RedirectClient uri (params @ set_if ''state'' (aq_state r))))"
proof -
  note general = authorize_upstream_state [OF success, of state' q tokenResponse authCode now]
  have len: "length (generateSecureToken randomBytes) = 32"
    using random by (simp add: generateSecureToken_def length_toHex)
  have hex: "set (generateSecureToken randomBytes) \<subseteq> set hexDigits"
    by (simp add: generateSecureToken_def set_toHex)
  have differs: "\<forall>st. aq_state r = Some st \<and> (length st \<noteq> 32 \<or> \<not> set st \<subseteq> set hexDigits) \<longrightarrow>
            generateSecureToken randomBytes \<noteq> st"
    using len hex by blast
  show ?thesis
    by (rule conjI general [THEN conjunct1] len hex differs general [THEN conjunct2])+
qed

text \<open>
  C8 on a concrete request with the client state \<open>client-state\<close> and sixteen random
  bytes \<open>0x61\<close>.
\<close>

theorem state_separation_witness:
  "fst (authorize test_platform (test_server ''verifier-1'' ''plain'')
          (generateSecureToken ''aaaaaaaaaaaaaaaa'') (test_authorize (Some ''client-state'')))
     = RedirectTo
         ''https://appcenter.intuit.com/connect/oauth2?state=61616161616161616161616161616161'' \<and>
   generateSecureToken ''aaaaaaaaaaaaaaaa'' \<noteq> ''client-state'' \<and>
   fst (authorize test_platform (test_server ''verifier-1'' ''plain'')
          (generateSecureToken ''aaaaaaaaaaaaaaaa'')
          (test_authorize (Some ''client-state'')\<lparr>aq_state := Some ''other-state''\<rparr>))
     = RedirectTo
         ''https://appcenter.intuit.com/connect/oauth2?state=61616161616161616161616161616161'' \<and>
   map_option pa_state
     (pendingAuthorizations
        (snd (authorize test_platform (test_server ''verifier-1'' ''plain'')
           (generateSecureToken ''aaaaaaaaaaaaaaaa'') (test_authorize (Some ''client-state''))))
        (generateSecureToken ''aaaaaaaaaaaaaaaa''))
     = Some (Some ''client-state'') \<and>
   fst (callback test_platform
          (snd (authorize test_platform (test_server ''verifier-1'' ''plain'')
             (generateSecureToken ''aaaaaaaaaaaaaaaa'') (test_authorize (Some ''client-state''))))
          (Some test_qb_token) ''code-2'' 1000
          (test_callback ''61616161616161616161616161616161''))
     = RedirectClient ''http://localhost:4000/cb''
         [(''code'', ''code-2''), (''state'', ''client-state'')]"
proof -
  let ?s = "test_server ''verifier-1'' ''plain''"
  let ?r = "test_authorize (Some ''client-state'')"
  let ?tok = "generateSecureToken ''aaaaaaaaaaaaaaaa''"
  have random: "length ''aaaaaaaaaaaaaaaa'' = 16"
    by simp
  have success: "fst (authorize test_platform ?s ?tok ?r)
      = RedirectTo
          ''https://appcenter.intuit.com/connect/oauth2?state=61616161616161616161616161616161''"
    by (simp add: test_token authorize_def get_def truthy_def test_authorize_def test_server_def
        test_client_def test_platform_def)
  have state: "aq_state ?r = Some ''client-state''"
    by (simp add: test_authorize_def)
  have short: "aq_state ?r = Some ''client-state'' \<and>
      (length ''client-state'' \<noteq> 32 \<or> \<not> set ''client-state'' \<subseteq> set hexDigits)"
    by (simp add: test_authorize_def)
  have final: "fst (callback test_platform (snd (authorize test_platform ?s ?tok ?r))
          (Some test_qb_token) ''code-2'' 1000
          (test_callback ''61616161616161616161616161616161''))
     = RedirectClient ''http://localhost:4000/cb''
         [(''code'', ''code-2''), (''state'', ''client-state'')]"
    by (simp add: test_token callback_def authorize_def get_def truthy_def set_if_def
        test_authorize_def test_server_def test_client_def test_platform_def test_callback_def
        test_url_parse_def)
  note inst = state_separation [OF random success, of "Some ''other-state''"]
  note differs = inst [THEN conjunct2, THEN conjunct2, THEN conjunct2, THEN conjunct1,
      rule_format, OF short]
  note independent = inst [THEN conjunct2, THEN conjunct2, THEN conjunct2, THEN conjunct2,
      THEN conjunct1]
  note stored = inst [THEN conjunct2, THEN conjunct2, THEN conjunct2, THEN conjunct2,
      THEN conjunct2, THEN conjunct1, unfolded state]
  show ?thesis
    by (rule conjI success differs independent stored final)+
qed

text \<open>
  C8 as stated fails when the client's \<open>state\<close> is the very string that the generator
  returns: the request succeeds and the state passed upstream is the client's.
\<close>

theorem state_separation_counterexample:
  "aq_state (test_authorize (Some ''61616161616161616161616161616161''))
     = Some (generateSecureToken ''aaaaaaaaaaaaaaaa'') \<and>
   fst (authorize test_platform (test_server ''verifier-1'' ''plain'')
          (generateSecureToken ''aaaaaaaaaaaaaaaa'')
          (test_authorize (Some ''61616161616161616161616161616161'')))
     = RedirectTo (authorizeUri test_platform [scopes_Accounting test_platform]
         ''61616161616161616161616161616161'')"
  by (simp add: test_token authorize_def get_def truthy_def test_authorize_def test_server_def
      test_client_def test_platform_def)

subsection \<open>Pending authorizations do not expire\<close>

lemma authorize_pendingAuthorizations_present:
  "pendingAuthorizations s k \<noteq> None \<Longrightarrow>
   pendingAuthorizations (snd (authorize p s internalState r)) k \<noteq> None"
  by (auto simp: authorize_def Let_def split: option.splits)

lemma callback_pendingAuthorizations_present:
  "pendingAuthorizations s k \<noteq> None \<Longrightarrow> cq_state r \<noteq> Some k \<Longrightarrow>
   pendingAuthorizations (snd (callback p s tokenResponse authCode now r)) k \<noteq> None"
  by (auto simp: callback_def Let_def split: option.splits)

lemma handle_pendingAuthorizations_present:
  "pendingAuthorizations s k \<noteq> None \<Longrightarrow> consumed e \<noteq> Some k \<Longrightarrow>
   pendingAuthorizations (snd (handle p s e)) k \<noteq> None"
  by (cases e)
     (simp_all del: not_None_eq add: register_pendingAuthorizations
       authorize_pendingAuthorizations_present callback_pendingAuthorizations_present
       token_pendingAuthorizations)

lemma run_pendingAuthorizations_present:
  "pendingAuthorizations s k \<noteq> None \<Longrightarrow> \<forall>e \<in> set es. consumed e \<noteq> Some k \<Longrightarrow>
   pendingAuthorizations (run p s es) k \<noteq> None"
  by (induction es arbitrary: s)
     (simp_all del: not_None_eq add: handle_pendingAuthorizations_present)

lemma callback_found:
  "cq_state q = Some k \<Longrightarrow> pendingAuthorizations s k \<noteq> None \<Longrightarrow>
   fst (callback p s tokenResponse authCode now q)
     \<noteq> Send 400 ''Invalid or expired authorization state''"
  by (auto simp: callback_def Let_def split: option.splits)

text \<open>
  Claim C9, as the code has it. An entry that \<open>/authorize\<close> stored under
  \<open>internalState\<close> has no time stamp and no handler removes it but a callback with that
  state. After any requests \<open>es\<close>, none of them such a callback, the entry is still
  stored, and a callback with that state is not answered with "Invalid or expired
  authorization state", at whatever time \<open>now\<close> it arrives.
\<close>

theorem pending_never_expires:
  assumes success: "fst (authorize p s internalState r) = RedirectTo url"
    and quiet: "\<forall>e \<in> set es. consumed e \<noteq> Some internalState"
    and state: "cq_state q = Some internalState"
  shows "pendingAuthorizations (run p (snd (authorize p s internalState r)) es) internalState
           \<noteq> None \<and>
         fst (callback p (run p (snd (authorize p s internalState r)) es)
                tokenResponse authCode now q)
           \<noteq> Send 400 ''Invalid or expired authorization state''"
proof -
  from authorize_success [OF success]
  have "pendingAuthorizations (snd (authorize p s internalState r)) internalState \<noteq> None"
    by auto
  then have present:
    "pendingAuthorizations (run p (snd (authorize p s internalState r)) es) internalState \<noteq> None"
    using quiet by (rule run_pendingAuthorizations_present)
  with callback_found [OF state] show ?thesis by blast
qed

text \<open>C9 on a concrete server, with a callback that arrives at time \<open>10\<^sup>1\<^sup>5\<close>.\<close>

theorem pending_never_expires_witness:
  "pendingAuthorizations
     (run test_platform
        (snd (authorize test_platform (test_server ''verifier-1'' ''plain'') ''state-1''
           (test_authorize None)))
        [Token (test_calls 1500) (test_redeem (Some ''verifier-1'')),
         Callback None ''code-2'' 2000 (test_callback ''state-9'')]) ''state-1'' \<noteq> None \<and>
   fst (callback test_platform
     (run test_platform
        (snd (authorize test_platform (test_server ''verifier-1'' ''plain'') ''state-1''
           (test_authorize None)))
        [Token (test_calls 1500) (test_redeem (Some ''verifier-1'')),
         Callback None ''code-2'' 2000 (test_callback ''state-9'')])
     (Some test_qb_token) ''code-3'' 1000000000000000 (test_callback ''state-1''))
   \<noteq> Send 400 ''Invalid or expired authorization state''"
proof -
  let ?s = "test_server ''verifier-1'' ''plain''"
  have success: "fst (authorize test_platform ?s ''state-1'' (test_authorize None))
      = RedirectTo ''https://appcenter.intuit.com/connect/oauth2?state=state-1''"
    by (simp add: authorize_def get_def truthy_def test_authorize_def test_server_def
        test_client_def test_platform_def)
  have quiet: "\<forall>e \<in> set [Token (test_calls 1500) (test_redeem (Some ''verifier-1'')),
         Callback None ''code-2'' 2000 (test_callback ''state-9'')]. consumed e \<noteq> Some ''state-1''"
    by (simp add: test_callback_def)
  have state: "cq_state (test_callback ''state-1'') = Some ''state-1''"
    by (simp add: test_callback_def)
  show ?thesis
    using pending_never_expires [OF success quiet state] .
qed

text \<open>
  C9 as stated fails: for the entry that a concrete \<open>/authorize\<close> request stores, there
  is no time after which the callback lookup fails.
\<close>

theorem pending_never_expires_counterexample:
  "\<not> (\<exists>bound. \<forall>now \<ge> bound.
        fst (callback test_platform
               (snd (authorize test_platform (test_server ''verifier-1'' ''plain'') ''state-1''
                  (test_authorize None)))
               (Some test_qb_token) ''code-2'' now (test_callback ''state-1''))
          = Send 400 ''Invalid or expired authorization state'')"
proof -
  have "fst (callback test_platform
               (snd (authorize test_platform (test_server ''verifier-1'' ''plain'') ''state-1''
                  (test_authorize None)))
               (Some test_qb_token) ''code-2'' now (test_callback ''state-1''))
          = RedirectClient ''http://localhost:4000/cb'' [(''code'', ''code-2'')]" for now
    by (simp add: callback_def authorize_def get_def truthy_def set_if_def test_authorize_def
        test_server_def test_client_def test_platform_def test_callback_def test_url_parse_def)
  then show ?thesis by auto
qed

subsection \<open>Redirect URIs at registration\<close>

lemma validateRedirectUris_None:
  "validateRedirectUris p uris = None \<longleftrightarrow> (\<forall>u \<in> set uris. localhostOrHttps p u)"
  by (induction uris) (auto simp: localhostOrHttps_def Let_def split: option.splits)

lemma validateRedirectUris_status:
  "validateRedirectUris p uris = Some failure \<Longrightarrow> status failure = Some 400"
  by (induction uris) (auto simp: Let_def split: option.splits if_splits)

lemma register_rejects:
  assumes "rr_redirect_uris r = None \<or> rr_redirect_uris r = Some []
           \<or> (\<exists>uris. rr_redirect_uris r = Some uris \<and> (\<exists>u \<in> set uris. \<not> localhostOrHttps p u))"
  shows "status (fst (register p s uuid secureToken now r)) = Some 400 \<and>
         snd (register p s uuid secureToken now r) = s"
proof -
  consider "rr_redirect_uris r = None" | "rr_redirect_uris r = Some []"
    | uris where "rr_redirect_uris r = Some uris" "uris \<noteq> []" "\<exists>u \<in> set uris. \<not> localhostOrHttps p u"
    using assms by (cases "rr_redirect_uris r") auto
  then show ?thesis
  proof cases
    case 1
    then show ?thesis by (simp add: register_def)
  next
    case 2
    then show ?thesis by (simp add: register_def)
  next
    case 3
    then have "validateRedirectUris p uris \<noteq> None"
      by (simp add: validateRedirectUris_None)
    then obtain failure where f: "validateRedirectUris p uris = Some failure"
      by auto
    with 3 validateRedirectUris_status [OF f] show ?thesis
      by (simp add: register_def)
  qed
qed

lemma register_accepts:
  assumes "rr_redirect_uris r = Some uris" "uris \<noteq> []" "\<forall>u \<in> set uris. localhostOrHttps p u"
  shows "status (fst (register p s uuid secureToken now r)) = Some 201 \<and>
         registered_client_id (fst (register p s uuid secureToken now r)) = Some uuid \<and>
         map_option reg_redirect_uris (registeredClients (snd (register p s uuid secureToken now r)) uuid)
           = Some uris"
  using assms validateRedirectUris_None [of p uris]
  by (simp add: register_def Let_def)

text \<open>
  Claim C6. Registration answers with status 400, and registers nothing, when
  \<open>redirect_uris\<close> is missing or no array, when it is empty, and when one of its URIs
  is neither a URL on \<open>localhost\<close> or \<open>127.0.0.1\<close> nor an \<open>https\<close> URL. Otherwise it
  answers with status 201 and the \<open>client_id\<close> that \<open>uuidv4()\<close> returned, under which
  the client is registered. The three URLs of the claim are read by \<open>new URL\<close> as the
  hypotheses say: the first list is rejected, the other two are accepted.
\<close>

theorem redirect_uri_policy:
  assumes example: "url_parse p ''http://example.com/cb''
                      = Some \<lparr>protocol = ''http:'', hostname = ''example.com''\<rparr>"
    and localhost: "url_parse p ''http://localhost:4000/cb''
                      = Some \<lparr>protocol = ''http:'', hostname = ''localhost''\<rparr>"
    and https: "url_parse p ''https://app.example.com/cb''
                      = Some \<lparr>protocol = ''https:'', hostname = ''app.example.com''\<rparr>"
  shows "(rr_redirect_uris r = None \<or> rr_redirect_uris r = Some []
            \<or> (\<exists>uris. rr_redirect_uris r = Some uris \<and> (\<exists>u \<in> set uris. \<not> localhostOrHttps p u))
          \<longrightarrow> status (fst (register p s uuid secureToken now r)) = Some 400 \<and>
              snd (register p s uuid secureToken now r) = s) \<and>
         (\<forall>uris. rr_redirect_uris r = Some uris \<and> uris \<noteq> [] \<and> (\<forall>u \<in> set uris. localhostOrHttps p u)
          \<longrightarrow> status (fst (register p s uuid secureToken now r)) = Some 201 \<and>
              registered_client_id (fst (register p s uuid secureToken now r)) = Some uuid \<and>
              map_option reg_redirect_uris
                (registeredClients (snd (register p s uuid secureToken now r)) uuid) = Some uris) \<and>
         register p s uuid secureToken now (r\<lparr>rr_redirect_uris := Some [''http://example.com/cb'']\<rparr>)
           = (Json 400 (ErrorBody ''invalid_redirect_uri''
                ''Redirect URIs must be localhost URLs or HTTPS URLs''), s) \<and>
         status (fst (register p s uuid secureToken now
            (r\<lparr>rr_redirect_uris := Some [''http://localhost:4000/cb'']\<rparr>))) = Some 201 \<and>
         registered_client_id (fst (register p s uuid secureToken now
            (r\<lparr>rr_redirect_uris := Some [''http://localhost:4000/cb'']\<rparr>))) = Some uuid \<and>
         status (fst (register p s uuid secureToken now
            (r\<lparr>rr_redirect_uris := Some [''https://app.example.com/cb'']\<rparr>))) = Some 201 \<and>
         registered_client_id (fst (register p s uuid secureToken now
            (r\<lparr>rr_redirect_uris := Some [''https://app.example.com/cb'']\<rparr>))) = Some uuid"
proof -
  have 1: "rr_redirect_uris r = None \<or> rr_redirect_uris r = Some []
            \<or> (\<exists>uris. rr_redirect_uris r = Some uris \<and> (\<exists>u \<in> set uris. \<not> localhostOrHttps p u))
          \<longrightarrow> status (fst (register p s uuid secureToken now r)) = Some 400 \<and>
              snd (register p s uuid secureToken now r) = s"
    using register_rejects [of r p s uuid secureToken now] by blast
  have 2: "\<forall>uris. rr_redirect_uris r = Some uris \<and> uris \<noteq> [] \<and> (\<forall>u \<in> set uris. localhostOrHttps p u)
          \<longrightarrow> status (fst (register p s uuid secureToken now r)) = Some 201 \<and>
              registered_client_id (fst (register p s uuid secureToken now r)) = Some uuid \<and>
              map_option reg_redirect_uris
                (registeredClients (snd (register p s uuid secureToken now r)) uuid) = Some uris"
    using register_accepts [of r _ p s uuid secureToken now] by blast
  have 3: "register p s uuid secureToken now (r\<lparr>rr_redirect_uris := Some [''http://example.com/cb'']\<rparr>)
           = (Json 400 (ErrorBody ''invalid_redirect_uri''
                ''Redirect URIs must be localhost URLs or HTTPS URLs''), s)"
    using example by (simp add: register_def)
  have lo: "localhostOrHttps p ''http://localhost:4000/cb''"
    using localhost by (simp add: localhostOrHttps_def)
  have ht: "localhostOrHttps p ''https://app.example.com/cb''"
    using https by (simp add: localhostOrHttps_def)
  have 4: "status (fst (register p s uuid secureToken now
            (r\<lparr>rr_redirect_uris := Some [''http://localhost:4000/cb'']\<rparr>))) = Some 201 \<and>
         registered_client_id (fst (register p s uuid secureToken now
            (r\<lparr>rr_redirect_uris := Some [''http://localhost:4000/cb'']\<rparr>))) = Some uuid"
    using register_accepts [of "r\<lparr>rr_redirect_uris := Some [''http://localhost:4000/cb'']\<rparr>"
        "[''http://localhost:4000/cb'']" p s uuid secureToken now] lo by simp
  have 5: "status (fst (register p s uuid secureToken now
            (r\<lparr>rr_redirect_uris := Some [''https://app.example.com/cb'']\<rparr>))) = Some 201 \<and>
         registered_client_id (fst (register p s uuid secureToken now
            (r\<lparr>rr_redirect_uris := Some [''https://app.example.com/cb'']\<rparr>))) = Some uuid"
    using register_accepts [of "r\<lparr>rr_redirect_uris := Some [''https://app.example.com/cb'']\<rparr>"
        "[''https://app.example.com/cb'']" p s uuid secureToken now] ht by simp
  from 1 2 3 4 5 show ?thesis by blast
qed

text \<open>C6 on concrete registration requests.\<close>

theorem redirect_uri_policy_witness:
  "status (fst (register test_platform (test_server ''verifier-1'' ''plain'')
       ''123e4567-e89b-42d3-a456-426614174000'' ''secret-1'' 1700000000000 (test_register None)))
     = Some 400 \<and>
   status (fst (register test_platform (test_server ''verifier-1'' ''plain'')
       ''123e4567-e89b-42d3-a456-426614174000'' ''secret-1'' 1700000000000
       (test_register (Some [''https://app.example.com/cb'', ''ftp://example.com/x'']))))
     = Some 400 \<and>
   register test_platform (test_server ''verifier-1'' ''plain'')
       ''123e4567-e89b-42d3-a456-426614174000'' ''secret-1'' 1700000000000
       (test_register (Some [''http://example.com/cb'']))
     = (Json 400 (ErrorBody ''invalid_redirect_uri''
          ''Redirect URIs must be localhost URLs or HTTPS URLs''),
        test_server ''verifier-1'' ''plain'') \<and>
   registered_client_id (fst (register test_platform (test_server ''verifier-1'' ''plain'')
       ''123e4567-e89b-42d3-a456-426614174000'' ''secret-1'' 1700000000000
       (test_register (Some [''http://localhost:4000/cb'']))))
     = Some ''123e4567-e89b-42d3-a456-426614174000'' \<and>
   status (fst (register test_platform (test_server ''verifier-1'' ''plain'')
       ''123e4567-e89b-42d3-a456-426614174000'' ''secret-1'' 1700000000000
       (test_register (Some [''http://localhost:4000/cb'', ''https://app.example.com/cb'']))))
     = Some 201"
proof -
  let ?s = "test_server ''verifier-1'' ''plain''"
  let ?uuid = "''123e4567-e89b-42d3-a456-426614174000''"
  have example: "url_parse test_platform ''http://example.com/cb''
      = Some \<lparr>protocol = ''http:'', hostname = ''example.com''\<rparr>"
    and localhost: "url_parse test_platform ''http://localhost:4000/cb''
      = Some \<lparr>protocol = ''http:'', hostname = ''localhost''\<rparr>"
    and https: "url_parse test_platform ''https://app.example.com/cb''
      = Some \<lparr>protocol = ''https:'', hostname = ''app.example.com''\<rparr>"
    by (simp_all add: test_platform_def test_url_parse_def)
  note inst = redirect_uri_policy [OF example localhost https,
      of _ ?s ?uuid "''secret-1''" 1700000000000]
  have uris: "rr_redirect_uris (test_register u) = u"
    "(test_register u)\<lparr>rr_redirect_uris := v\<rparr> = test_register v" for u v
    by (simp_all add: test_register_def)
  have good: "localhostOrHttps test_platform ''http://localhost:4000/cb''"
    "localhostOrHttps test_platform ''https://app.example.com/cb''"
    by (simp_all add: localhostOrHttps_def test_platform_def test_url_parse_def)
  have bad: "\<not> localhostOrHttps test_platform ''ftp://example.com/x''"
    by (simp add: localhostOrHttps_def test_platform_def test_url_parse_def)
  have 1: "status (fst (register test_platform ?s ?uuid ''secret-1'' 1700000000000
       (test_register None))) = Some 400"
    using inst [of "test_register None", THEN conjunct1] by (simp add: uris)
  have 2: "status (fst (register test_platform ?s ?uuid ''secret-1'' 1700000000000
       (test_register (Some [''https://app.example.com/cb'', ''ftp://example.com/x''])))) = Some 400"
    using inst [of "test_register (Some [''https://app.example.com/cb'', ''ftp://example.com/x''])",
        THEN conjunct1] bad
    by (simp add: uris)
  have 3: "register test_platform ?s ?uuid ''secret-1'' 1700000000000
       (test_register (Some [''http://example.com/cb'']))
     = (Json 400 (ErrorBody ''invalid_redirect_uri''
          ''Redirect URIs must be localhost URLs or HTTPS URLs''), ?s)"
    using inst [of "test_register None", THEN conjunct2, THEN conjunct2, THEN conjunct1]
    by (simp add: uris)
  have 4: "registered_client_id (fst (register test_platform ?s ?uuid ''secret-1'' 1700000000000
       (test_register (Some [''http://localhost:4000/cb'']))))
     = Some ?uuid"
    using inst [of "test_register None", THEN conjunct2, THEN conjunct2, THEN conjunct2,
        THEN conjunct2, THEN conjunct1]
    by (simp add: uris)
  have 5: "status (fst (register test_platform ?s ?uuid ''secret-1'' 1700000000000
       (test_register (Some [''http://localhost:4000/cb'', ''https://app.example.com/cb''])))) = Some 201"
    using inst [of "test_register (Some [''http://localhost:4000/cb'', ''https://app.example.com/cb''])",
        THEN conjunct2, THEN conjunct1] good
    by (simp add: uris)
  show ?thesis
    by (rule conjI 1 2 3 4 5)+
qed

subsection \<open>Framing of the token codec\<close>

text \<open>
  The codec lays a token out as \<open>iv\<close> (16 bytes), authentication tag (16 bytes) and
  ciphertext, and reads it back at the same offsets. If the cipher, the encoding and the
  serialisation each invert on what they produced, decryption returns the payload that
  was encrypted. Decryption returns \<open>null\<close> for a buffer shorter than 32 bytes and
  whenever the cipher rejects the buffer. Which buffers AES-256-GCM rejects (another key,
  a changed byte) is a property of the cipher, not of this module.
\<close>

lemma token_codec_roundtrip:
  assumes iv: "length iv = 16"
    and cipher: "\<And>plaintext encrypted authTag.
        aes_256_gcm_encrypt p (TOKEN_ENCRYPTION_KEY p) iv plaintext = (encrypted, authTag) \<Longrightarrow>
        length authTag = 16 \<and>
        aes_256_gcm_decrypt p (TOKEN_ENCRYPTION_KEY p) iv authTag encrypted = Some plaintext"
    and base64url: "\<And>b. base64url_decode p (base64url_encode p b) = b"
    and json: "json_parse p (json_stringify p payload) = Some payload"
  shows "decryptTokenPayload p (encryptTokenPayload p iv payload) = Some payload"
proof -
  obtain encrypted authTag where
    enc: "aes_256_gcm_encrypt p (TOKEN_ENCRYPTION_KEY p) iv (json_stringify p payload)
            = (encrypted, authTag)"
    by (cases "aes_256_gcm_encrypt p (TOKEN_ENCRYPTION_KEY p) iv (json_stringify p payload)")
  from cipher [OF enc] have tag: "length authTag = 16"
    and dec: "aes_256_gcm_decrypt p (TOKEN_ENCRYPTION_KEY p) iv authTag encrypted
                = Some (json_stringify p payload)"
    by simp_all
  have token: "encryptTokenPayload p iv payload = base64url_encode p (iv @ authTag @ encrypted)"
    by (simp add: encryptTokenPayload_def enc)
  show ?thesis
    unfolding token decryptTokenPayload_def
    by (simp add: base64url iv tag dec json)
qed

lemma decryptTokenPayload_fails_closed:
  "length (base64url_decode p tok) < 32 \<Longrightarrow> decryptTokenPayload p tok = None"
  "aes_256_gcm_decrypt p (TOKEN_ENCRYPTION_KEY p) (take 16 (base64url_decode p tok))
     (take 16 (drop 16 (base64url_decode p tok))) (drop 32 (base64url_decode p tok)) = None
   \<Longrightarrow> decryptTokenPayload p tok = None"
  by (simp_all add: decryptTokenPayload_def Let_def)

end
